theory Spec2Isabelle
  imports Main
begin

section \<open>Python string primitives used by the pipeline\<close>

text \<open>\<^verbatim>\<open>s.startswith(p)\<close>\<close>

definition startswith :: "string \<Rightarrow> string \<Rightarrow> bool" where
  "startswith s p = (take (length p) s = p)"

text \<open>\<^verbatim>\<open>s.split(c)\<close> for a one-character separator: never returns the empty list.\<close>

fun split_on :: "char \<Rightarrow> string \<Rightarrow> string list" where
  "split_on c [] = [[]]"
| "split_on c (x # xs) =
     (if x = c then [] # split_on c xs
      else (case split_on c xs of
              [] \<Rightarrow> [[x]]
            | w # ws \<Rightarrow> (x # w) # ws))"

text \<open>\<^verbatim>\<open>sep.join(ws)\<close> for a one-character separator.\<close>

fun join_with :: "char \<Rightarrow> string list \<Rightarrow> string" where
  "join_with c [] = []"
| "join_with c [w] = w"
| "join_with c (w # v # ws) = w @ c # join_with c (v # ws)"

text \<open>\<^verbatim>\<open>s.replace(old, new, 1)\<close>: only the leftmost occurrence is replaced.\<close>

fun replace_first :: "string \<Rightarrow> string \<Rightarrow> string \<Rightarrow> string" where
  "replace_first old new [] = (if old = [] then new else [])"
| "replace_first old new (x # xs) =
     (if startswith (x # xs) old then new @ drop (length old) (x # xs)
      else x # replace_first old new xs)"

text \<open>\<^verbatim>\<open>s.rfind(c)\<close>: the highest index holding \<open>c\<close>, or \<open>-1\<close> when there is none.\<close>

fun rfind :: "string \<Rightarrow> char \<Rightarrow> int" where
  "rfind [] c = -1"
| "rfind (x # xs) c =
     (let r = rfind xs c
      in if 0 \<le> r then r + 1 else if x = c then 0 else -1)"

text \<open>\<^verbatim>\<open>key[key.rfind("/") + 1 :]\<close>; the slice start is never negative.\<close>

definition basename :: "string \<Rightarrow> string" where
  "basename key = drop (nat (rfind key CHR ''/'' + 1)) key"


section \<open>Paths\<close>

text \<open>
  A \<^verbatim>\<open>pathlib.Path\<close> on POSIX: whether it is anchored at the root, and its components.
  Parsing a string drops empty components and \<open>.\<close> components and keeps \<open>..\<close>.
\<close>

datatype path = Path (is_absolute: bool) (parts: "string list")

definition parse_path :: "string \<Rightarrow> path" where
  "parse_path s =
     Path (startswith s ''/'') (filter (\<lambda>x. x \<noteq> [] \<and> x \<noteq> ''.'') (split_on CHR ''/'' s))"

text \<open>\<^verbatim>\<open>p / s\<close>: an anchored right operand replaces the left one.\<close>

definition truediv :: "path \<Rightarrow> string \<Rightarrow> path" where
  "truediv p s =
     (if startswith s ''/'' then parse_path s
      else Path (is_absolute p) (parts p @ parts (parse_path s)))"

text \<open>\<^verbatim>\<open>p.name\<close>: the final component, or the empty string.\<close>

definition path_name :: "path \<Rightarrow> string" where
  "path_name p = (if parts p = [] then [] else last (parts p))"

text \<open>\<^verbatim>\<open>str(p)\<close>\<close>

definition path_str :: "path \<Rightarrow> string" where
  "path_str p =
     (if is_absolute p then CHR ''/'' # join_with CHR ''/'' (parts p)
      else if parts p = [] then ''.'' else join_with CHR ''/'' (parts p))"


section \<open>Granule identifiers and band sets\<close>

datatype Instrument = L30 | S30

fun Instrument_name :: "Instrument \<Rightarrow> string" where
  "Instrument_name L30 = ''L30''"
| "Instrument_name S30 = ''S30''"

text \<open>
  Modelled from the spec: the band enumerations \<open>L30Band\<close> and \<open>S30Band\<close> are imported
  from \<^verbatim>\<open>hls_vi.generate_indices\<close>, which is not among the sources. Only the member names
  matter to \<open>granule_sources\<close>; they are listed in declaration order, as the doctest of
  \<open>granule_sources\<close> shows them (two disjoint orderings of six bands, one per instrument).
\<close>

definition L30Band :: "string list" where
  "L30Band = [''B02'', ''B03'', ''B04'', ''B05'', ''B06'', ''B07'']"

definition S30Band :: "string list" where
  "S30Band = [''B02'', ''B03'', ''B04'', ''B8A'', ''B11'', ''B12'']"

text \<open>
  The exceptions of the pipeline. \<open>External\<close> stands for whatever a collaborator raises
  (the object-store client, the manifest generator, the XML library); the pipeline never
  inspects it.
\<close>

datatype error =
    MalformedGranuleId
  | FileNotFoundError path
  | IsADirectoryError path
  | NotADirectoryError path
  | ValueError
  | External string

record GranuleId =
  instrument :: Instrument
  tile :: string
  acquisition_date :: string
  version :: string

definition Instrument_named :: "string \<Rightarrow> Instrument option" where
  "Instrument_named n =
     (if n = ''L30'' then Some L30 else if n = ''S30'' then Some S30 else None)"

text \<open>
  Modelled from the spec: \<^verbatim>\<open>GranuleId.from_string\<close> is imported from
  \<^verbatim>\<open>hls_vi.generate_indices\<close>, which is not among the sources. Section 4.1 of the
  specification: split on \<open>.\<close>; at least five dot-separated fields are required, at the
  positions literal \<open>HLS\<close>, instrument, tile, acquisition timestamp, version; the parse
  fails with \<open>MalformedGranuleId\<close> when the literal prefix or the instrument token do not
  match.
\<close>

definition GranuleId_from_string :: "string \<Rightarrow> error + GranuleId" where
  "GranuleId_from_string s =
     (case split_on CHR ''.'' s of
        prefix # instr # tile_id # acq # ver # rest \<Rightarrow>
          (if prefix \<noteq> ''HLS'' then Inl MalformedGranuleId
           else (case Instrument_named instr of
                   None \<Rightarrow> Inl MalformedGranuleId
                 | Some i \<Rightarrow>
                     Inr \<lparr>instrument = i, tile = tile_id, acquisition_date = acq,
                          version = join_with CHR ''.'' (ver # rest)\<rparr>))
      | _ \<Rightarrow> Inl MalformedGranuleId)"


section \<open>Source resolution\<close>

type_synonym locator = "string \<times> string"

definition granule_sources :: "string \<Rightarrow> locator list" where
  "granule_sources granule_id =
     (let is_l30 = startswith granule_id ''HLS.L30'';
          collection = ''HLS'' @ (if is_l30 then ''L'' else ''S'') @ ''30.020'';
          bands = (if is_l30 then L30Band else S30Band);
          suffixes = map (\<lambda>band. ''.'' @ band @ ''.tif'') bands @ [''.Fmask.tif'', ''.cmr.xml'']
      in (''lp-prod-public'', collection @ ''/'' @ granule_id @ ''/'' @ granule_id @ ''.jpg'') #
         map (\<lambda>suffix. (''lp-prod-protected'',
                          collection @ ''/'' @ granule_id @ ''/'' @ granule_id @ suffix))
             suffixes)"


section \<open>Output keys\<close>

definition output_key_prefix :: "string \<Rightarrow> error + string" where
  "output_key_prefix granule_id =
     (case GranuleId_from_string granule_id of
        Inl e \<Rightarrow> Inl e
      | Inr gid \<Rightarrow>
          (let vi_granule_id = replace_first ''HLS'' ''HLS-VI'' granule_id;
               yyyyddd = take 7 (acquisition_date gid)
           in Inr (Instrument_name (instrument gid) @ ''_VI/data/'' @ yyyyddd @ ''/'' @ vi_granule_id)))"



section \<open>The world: file system and calls to collaborators\<close>

text \<open>
  The file system is an association list from resolved locations (component lists below the
  root) to nodes; the first binding of a location is the current one. The root always
  exists and is a directory. Symbolic links are not modelled.
\<close>

datatype node = File string | Dir

text \<open>
  The calls that leave the process, in the order they are issued: one \<open>Fetch\<close> per
  invocation of the downloader, one \<open>Put_object\<close> per \<^verbatim>\<open>s3.put_object\<close> (bucket, key,
  body, ACL), one \<open>Manifest\<close> per run of the manifest generator (its argument list) and
  one \<open>Sanitize\<close> per document rewritten by \<open>strip_metadata_urls\<close>.
\<close>

datatype event =
    Fetch locator path
  | Put_object string string string string
  | Manifest "string list"
  | Sanitize path

fun is_fetch :: "event \<Rightarrow> bool" where
  "is_fetch (Fetch src dst) = True"
| "is_fetch _ = False"

record world =
  cwd :: "string list"
  nodes :: "(string list \<times> node) list"
  trace :: "event list"

definition log_event :: "event \<Rightarrow> world \<Rightarrow> world" where
  "log_event e w = w\<lparr>trace := trace w @ [e]\<rparr>"

text \<open>\<^verbatim>\<open>p.absolute()\<close>: a relative path is put below the working directory, unresolved.\<close>

definition absolute :: "world \<Rightarrow> path \<Rightarrow> path" where
  "absolute w p = (if is_absolute p then p else Path True (cwd w @ parts p))"

definition is_dir_at :: "(string list \<times> node) list \<Rightarrow> string list \<Rightarrow> bool" where
  "is_dir_at ns loc = (loc = [] \<or> map_of ns loc = Some Dir)"

definition exists_at :: "(string list \<times> node) list \<Rightarrow> string list \<Rightarrow> bool" where
  "exists_at ns loc = (loc = [] \<or> map_of ns loc \<noteq> None)"

text \<open>
  Path resolution as the operating system does it: walk the components from the root;
  every component walked through must be a directory, and \<open>..\<close> steps to the parent
  (the root is its own parent).
\<close>

fun resolve :: "(string list \<times> node) list \<Rightarrow> string list \<Rightarrow> string list \<Rightarrow> string list option" where
  "resolve ns loc [] = (if exists_at ns loc then Some loc else None)"
| "resolve ns loc (c # cs) =
     (if is_dir_at ns loc
      then resolve ns (if c = ''..'' then butlast loc else loc @ [c]) cs
      else None)"

text \<open>\<^verbatim>\<open>p.exists()\<close>\<close>

definition exists :: "world \<Rightarrow> path \<Rightarrow> bool" where
  "exists w p = (resolve (nodes w) [] (parts (absolute w p)) \<noteq> None)"

text \<open>\<^verbatim>\<open>open(p, "rb").read()\<close>\<close>

definition read_file :: "world \<Rightarrow> path \<Rightarrow> error + string" where
  "read_file w p =
     (case resolve (nodes w) [] (parts (absolute w p)) of
        None \<Rightarrow> Inl (FileNotFoundError p)
      | Some loc \<Rightarrow>
          if is_dir_at (nodes w) loc then Inl (IsADirectoryError p)
          else (case map_of (nodes w) loc of
                  Some (File body) \<Rightarrow> Inr body
                | _ \<Rightarrow> Inl (FileNotFoundError p)))"

text \<open>
  Creating or replacing the file at \<open>p\<close>: the parent must resolve to a directory and the
  target must not be a directory.
\<close>

definition write_file :: "world \<Rightarrow> path \<Rightarrow> string \<Rightarrow> (error + unit) \<times> world" where
  "write_file w p body =
     (let ps = parts (absolute w p)
      in if ps = [] then (Inl (IsADirectoryError p), w)
         else (case resolve (nodes w) [] (butlast ps) of
                 None \<Rightarrow> (Inl (FileNotFoundError p), w)
               | Some d \<Rightarrow>
                   if \<not> is_dir_at (nodes w) d then (Inl (NotADirectoryError p), w)
                   else (let loc = (if last ps = ''..'' then butlast d else d @ [last ps])
                         in if is_dir_at (nodes w) loc then (Inl (IsADirectoryError p), w)
                            else (Inr (), w\<lparr>nodes := (loc, File body) # nodes w\<rparr>))))"

text \<open>
  \<^verbatim>\<open>p.iterdir()\<close>: the children of a directory, each as \<open>p / name\<close>, in the order the
  association list happens to hold them (an order the program has no control over).
\<close>

definition iterdir :: "world \<Rightarrow> path \<Rightarrow> error + path list" where
  "iterdir w p =
     (case resolve (nodes w) [] (parts (absolute w p)) of
        None \<Rightarrow> Inl (FileNotFoundError p)
      | Some d \<Rightarrow>
          if \<not> is_dir_at (nodes w) d then Inl (NotADirectoryError p)
          else Inr (map (\<lambda>loc. Path (is_absolute p) (parts p @ [last loc]))
                        (remdups (filter (\<lambda>loc. loc \<noteq> [] \<and> butlast loc = d)
                                         (map fst (nodes w))))))"


section \<open>The transfer engine\<close>

text \<open>
  A downloader receives a locator and a destination path; it acts on the world and may
  fail.
\<close>

type_synonym downloader = "locator \<Rightarrow> path \<Rightarrow> world \<Rightarrow> (error + unit) \<times> world"

text \<open>
  The object-store client: what \<^verbatim>\<open>download_file\<close> obtains for a bucket and key and what
  \<^verbatim>\<open>put_object\<close> answers, both possibly depending on what has happened so far.
\<close>

record s3_client =
  get_object :: "world \<Rightarrow> string \<Rightarrow> string \<Rightarrow> error + string"
  put_object :: "world \<Rightarrow> string \<Rightarrow> string \<Rightarrow> string \<Rightarrow> string \<Rightarrow> error option"

definition make_s3_downloader :: "s3_client \<Rightarrow> downloader" where
  "make_s3_downloader s3 src dst w =
     (case src of (bucket, key) \<Rightarrow>
        (case get_object s3 w bucket key of
           Inl e \<Rightarrow> (Inl e, w)
         | Inr body \<Rightarrow> write_file w dst body))"

text \<open>
  \<^verbatim>\<open>list(executor.map(downloader, missing_srcs, missing_dsts))\<close> inside
  \<^verbatim>\<open>with ThreadPoolExecutor()\<close>. Every task is submitted at once and the results are
  collected in submission order, so the error that surfaces is that of the first task, in
  submission order, that fails. When it surfaces, the tasks not yet started are cancelled
  and leaving the \<^verbatim>\<open>with\<close> block waits for those already started; their own errors are
  dropped. How many later tasks had been started is up to the scheduler: it is the
  parameter \<open>started\<close>. The effects of the tasks are applied in submission order.
\<close>

fun run_to_completion :: "downloader \<Rightarrow> (locator \<times> path) list \<Rightarrow> world \<Rightarrow> world" where
  "run_to_completion dl [] w = w"
| "run_to_completion dl ((src, dst) # ts) w =
     run_to_completion dl ts (snd (dl src dst (log_event (Fetch src dst) w)))"

fun executor_map :: "downloader \<Rightarrow> nat \<Rightarrow> (locator \<times> path) list \<Rightarrow> world \<Rightarrow> (error + unit) \<times> world" where
  "executor_map dl started [] w = (Inr (), w)"
| "executor_map dl started ((src, dst) # ts) w =
     (case dl src dst (log_event (Fetch src dst) w) of
        (Inl e, w') \<Rightarrow> (Inl e, run_to_completion dl (take started ts) w')
      | (Inr _, w') \<Rightarrow> executor_map dl started ts w')"

definition missing_files :: "locator list \<Rightarrow> path \<Rightarrow> world \<Rightarrow> (locator \<times> path) list" where
  "missing_files srcs dst_dir w =
     (let src_names = map (\<lambda>(_, key). basename key) srcs;
          dsts = map (\<lambda>src_name. absolute w (truediv dst_dir src_name)) src_names
      in filter (\<lambda>(src, dst). \<not> exists w dst) (zip srcs dsts))"

definition download_files ::
  "downloader \<Rightarrow> nat \<Rightarrow> locator list \<Rightarrow> path \<Rightarrow> world \<Rightarrow> (error + locator list \<times> path list) \<times> world" where
  "download_files dl started srcs dst_dir w =
     (let missing = missing_files srcs dst_dir w;
          missing_srcs = map fst missing;
          missing_dsts = map snd missing
      in (case executor_map dl started missing w of
            (Inl e, w') \<Rightarrow> (Inl e, w')
          | (Inr _, w') \<Rightarrow> (Inr (missing_srcs, missing_dsts), w')))"



section \<open>The metadata sanitizer\<close>

text \<open>An XML document as a tree: elements with attributes and children, and text.\<close>

datatype xml = Element string "(string \<times> string) list" "xml list" | Text string

text \<open>
  Modelled from the spec: the stylesheet \<^verbatim>\<open>resources/strip-urls.xslt\<close> is not among the
  sources. Section 4.4 of the specification: the transform removes every node representing
  a reference URL and removes checksum-algorithm values using the non-canonical spelling;
  everything else is copied. Which element names represent reference URLs is not said, so
  they are the parameter \<open>is_url\<close>; a checksum-algorithm value in the non-canonical
  spelling is an \<open>Algorithm\<close> element with the text \<open>SHA512\<close> as a child. The result is
  the list of nodes that replace the input node (empty when it is removed).
\<close>

fun is_url_node :: "(string \<Rightarrow> bool) \<Rightarrow> xml \<Rightarrow> bool" where
  "is_url_node is_url (Element name attrs children) = is_url name"
| "is_url_node is_url (Text t) = False"

fun noncanonical_algorithm :: "xml \<Rightarrow> bool" where
  "noncanonical_algorithm (Element name attrs children) =
     (name = ''Algorithm'' \<and> Text ''SHA512'' \<in> set children)"
| "noncanonical_algorithm (Text t) = False"

fun strip_urls :: "(string \<Rightarrow> bool) \<Rightarrow> xml \<Rightarrow> xml list" where
  "strip_urls is_url (Text t) = [Text t]"
| "strip_urls is_url (Element name attrs children) =
     (if is_url_node is_url (Element name attrs children) \<or>
         noncanonical_algorithm (Element name attrs children) then []
      else [Element name attrs (concat (map (strip_urls is_url) children))])"

text \<open>
  Modelled from the spec: \<^verbatim>\<open>write_c14n\<close> belongs to the XML library. Section 4.4 of the
  specification: a canonical serialization in which an empty element is an explicit
  open/close pair, never a self-closing tag. Markup characters in text and attribute values
  are escaped as canonical XML does.
\<close>

fun escape_text :: "string \<Rightarrow> string" where
  "escape_text [] = []"
| "escape_text (c # cs) =
     (if c = CHR ''&'' then ''&amp;''
      else if c = CHR ''<'' then ''&lt;''
      else if c = CHR ''>'' then ''&gt;''
      else [c]) @ escape_text cs"

fun escape_attr :: "string \<Rightarrow> string" where
  "escape_attr [] = []"
| "escape_attr (c # cs) =
     (if c = CHR ''&'' then ''&amp;''
      else if c = CHR ''<'' then ''&lt;''
      else if c = CHR 0x22 then ''&quot;''
      else [c]) @ escape_attr cs"

definition c14n_attr :: "string \<times> string \<Rightarrow> string" where
  "c14n_attr a = CHR '' '' # fst a @ [CHR ''='', CHR 0x22] @ escape_attr (snd a) @ [CHR 0x22]"

fun c14n :: "xml \<Rightarrow> string" where
  "c14n (Text t) = escape_text t"
| "c14n (Element name attrs children) =
     CHR ''<'' # name @ concat (map c14n_attr attrs) @ [CHR ''>''] @
     concat (map c14n children) @
     [CHR ''<'', CHR ''/''] @ name @ [CHR ''>'']"


text \<open>
  The XML side of \<open>strip_metadata_urls\<close>: the library's parser (a document that is not
  well formed is an error) and the stylesheet's notion of a URL element.
\<close>

record xml_tools =
  etree_parse :: "string \<Rightarrow> error + xml"
  url_element :: "string \<Rightarrow> bool"

definition strip_metadata_urls :: "xml_tools \<Rightarrow> path \<Rightarrow> world \<Rightarrow> (error + unit) \<times> world" where
  "strip_metadata_urls xt cmr_xml w =
     (case read_file w cmr_xml of
        Inl e \<Rightarrow> (Inl e, w)
      | Inr text \<Rightarrow>
          (case etree_parse xt text of
             Inl e \<Rightarrow> (Inl e, w)
           | Inr doc \<Rightarrow>
               write_file (log_event (Sanitize cmr_xml) w) cmr_xml
                 (concat (map c14n (strip_urls (url_element xt) doc)))))"


section \<open>The prepare stage\<close>

definition prepare_inputs ::
  "s3_client \<Rightarrow> xml_tools \<Rightarrow> nat \<Rightarrow> string \<Rightarrow> path \<Rightarrow> world \<Rightarrow> (error + unit) \<times> world" where
  "prepare_inputs s3 xt started granule_id dst_dir w =
     (let sources = granule_sources granule_id
      in (case download_files (make_s3_downloader s3) started sources dst_dir w of
            (Inl e, w') \<Rightarrow> (Inl e, w')
          | (Inr _, w') \<Rightarrow>
              strip_metadata_urls xt (truediv dst_dir (granule_id @ ''.cmr.xml'')) w'))"


section \<open>The publish stage\<close>

text \<open>
  The manifest generator \<^verbatim>\<open>hls_manifest.main\<close> is a collaborator: it receives its argument
  list, acts on the world and may fail.
\<close>

type_synonym manifest_generator = "string list \<Rightarrow> world \<Rightarrow> (error + unit) \<times> world"

definition create_manifest ::
  "manifest_generator \<Rightarrow> string \<Rightarrow> string \<Rightarrow> path \<Rightarrow> string \<Rightarrow> world \<Rightarrow> (error + path) \<times> world" where
  "create_manifest hls_manifest job_id granule_id input_dir bucket w =
     (case output_key_prefix granule_id of
        Inl e \<Rightarrow> (Inl e, w)
      | Inr key_prefix \<Rightarrow>
          (case split_on CHR ''/'' key_prefix of
             collection_suffix # others \<Rightarrow>
               if others = [] then (Inl ValueError, w)
               else
                 (let vi_granule_id = last others;
                      manifest_filename = vi_granule_id @ ''.json'';
                      manifest_path = truediv input_dir manifest_filename;
                      args = [path_str input_dir, path_str manifest_path,
                              ''s3://'' @ bucket @ ''/'' @ key_prefix,
                              ''HLS'' @ collection_suffix, vi_granule_id, job_id, ''false'']
                  in (case hls_manifest args (log_event (Manifest args) w) of
                        (Inl e, w') \<Rightarrow> (Inl e, w')
                      | (Inr _, w') \<Rightarrow> (Inr manifest_path, w')))
           | [] \<Rightarrow> (Inl ValueError, w)))"

text \<open>
  \<^verbatim>\<open>with open(src, "rb") as body: s3.put_object(Bucket=bucket, Key=key, Body=body, ACL=acl)\<close>:
  the call is issued once the file is open, and may fail.
\<close>

definition put_file ::
  "s3_client \<Rightarrow> string \<Rightarrow> string \<Rightarrow> path \<Rightarrow> string \<Rightarrow> world \<Rightarrow> (error + unit) \<times> world" where
  "put_file s3 bucket key src acl w =
     (case read_file w src of
        Inl e \<Rightarrow> (Inl e, w)
      | Inr body \<Rightarrow>
          (case put_object s3 w bucket key body acl of
             Some e \<Rightarrow> (Inl e, log_event (Put_object bucket key body acl) w)
           | None \<Rightarrow> (Inr (), log_event (Put_object bucket key body acl) w)))"

text \<open>The loop over the directory listing.\<close>

fun upload_each ::
  "s3_client \<Rightarrow> string \<Rightarrow> string \<Rightarrow> string \<Rightarrow> path list \<Rightarrow> world \<Rightarrow> (error + unit) \<times> world" where
  "upload_each s3 bucket key_prefix acl [] w = (Inr (), w)"
| "upload_each s3 bucket key_prefix acl (src # srcs) w =
     (case put_file s3 bucket (key_prefix @ ''/'' @ path_name src) src acl w of
        (Inl e, w') \<Rightarrow> (Inl e, w')
      | (Inr _, w') \<Rightarrow> upload_each s3 bucket key_prefix acl srcs w')"

definition upload_outputs ::
  "s3_client \<Rightarrow> manifest_generator \<Rightarrow> string \<Rightarrow> string \<Rightarrow> path \<Rightarrow> string \<Rightarrow> bool \<Rightarrow> world
     \<Rightarrow> (error + unit) \<times> world" where
  "upload_outputs s3 hls_manifest job_id granule_id output_dir bucket debug w =
     (case output_key_prefix granule_id of
        Inl e \<Rightarrow> (Inl e, w)
      | Inr key_prefix \<Rightarrow>
          (let acl = (if debug then ''public-read'' else ''private'')
           in (case iterdir w output_dir of
                 Inl e \<Rightarrow> (Inl e, w)
               | Inr srcs \<Rightarrow>
                   (case upload_each s3 bucket key_prefix acl srcs w of
                      (Inl e, w1) \<Rightarrow> (Inl e, w1)
                    | (Inr _, w1) \<Rightarrow>
                        (case create_manifest hls_manifest job_id granule_id output_dir bucket w1 of
                           (Inl e, w2) \<Rightarrow> (Inl e, w2)
                         | (Inr src, w2) \<Rightarrow>
                             put_file s3 bucket (key_prefix @ ''/'' @ path_name src) src acl w2)))))"


section \<open>Sample worlds and collaborators\<close>

text \<open>
  A working directory \<open>/work\<close> holding a directory \<open>in\<close> with one file, an object store
  that serves a fixed body for the keys it has, and a downloader that cannot fail (it
  creates an empty file at the location its destination names).
\<close>

definition example_world :: world where
  "example_world =
     \<lparr>cwd = [''work''],
      nodes = [([''work''], Dir), ([''work'', ''in''], Dir),
               ([''work'', ''in'', ''a.tif''], File ''old'')],
      trace = []\<rparr>"

definition s3_serving :: "(string \<Rightarrow> bool) \<Rightarrow> s3_client" where
  "s3_serving has =
     \<lparr>get_object = (\<lambda>w bucket key. if has key then Inr ''data'' else Inl (External ''NoSuchKey'')),
      put_object = (\<lambda>w bucket key body acl. None)\<rparr>"

definition sample_s3 :: s3_client where
  "sample_s3 = s3_serving (\<lambda>key. True)"



text \<open>
  The scratch area of a job, with an empty input directory \<open>/var/scratch/job/hls\<close> and an
  output directory holding two products.
\<close>

definition scratch_world :: world where
  "scratch_world =
     \<lparr>cwd = [],
      nodes = [([''var''], Dir), ([''var'', ''scratch''], Dir), ([''var'', ''scratch'', ''job''], Dir),
               ([''var'', ''scratch'', ''job'', ''hls''], Dir),
               ([''var'', ''scratch'', ''job'', ''hls-vi''], Dir),
               ([''var'', ''scratch'', ''job'', ''hls-vi'', ''NDVI.tif''], File ''ndvi''),
               ([''var'', ''scratch'', ''job'', ''hls-vi'', ''EVI.tif''], File ''evi'')],
      trace = []\<rparr>"

text \<open>
  A metadata document with a block of access URLs, a checksum in the non-canonical
  spelling and an empty element; a parser that knows this one document, as the body the
  sample object store serves; a stylesheet for which \<open>OnlineAccessURLs\<close> is the URL element.
\<close>

definition sample_doc :: xml where
  "sample_doc =
     Element ''Granule'' []
       [Element ''OnlineAccessURLs'' []
          [Element ''OnlineAccessURL'' [] [Element ''URL'' [] [Text ''https://example.org/a.tif'']]],
        Element ''Checksum'' []
          [Element ''Value'' [] [Text ''ab''], Element ''Algorithm'' [] [Text ''SHA512'']],
        Element ''Orbit'' [] []]"

definition sample_xml_tools :: xml_tools where
  "sample_xml_tools =
     \<lparr>etree_parse = (\<lambda>text. if text = ''data'' then Inr sample_doc
                             else Inl (External ''XMLSyntaxError'')),
      url_element = (\<lambda>name. name = ''OnlineAccessURLs'')\<rparr>"

text \<open>A manifest generator that writes a fixed body to the path given as its second argument.\<close>

definition sample_manifest :: manifest_generator where
  "sample_manifest args w =
     (case args of
        _ # out # _ \<Rightarrow> write_file w (parse_path out) ''manifest''
      | _ \<Rightarrow> (Inl (External ''usage''), w))"


section \<open>Facts about splitting\<close>


lemma split_on_Cons2:
  "split_on c s = w # v # ws \<Longrightarrow> \<exists>t. s = w @ c # t \<and> split_on c t = v # ws"
proof (induction s arbitrary: w)
  case Nil
  then show ?case by simp
next
  case (Cons x xs)
  show ?case
  proof (cases "x = c")
    case True
    with Cons.prems show ?thesis by auto
  next
    case False
    with Cons.prems obtain w' where w: "w = x # w'" and sp: "split_on c xs = w' # v # ws"
      by (auto split: list.splits)
    from Cons.IH [OF sp] obtain t where "xs = w' @ c # t" "split_on c t = v # ws" by blast
    with w show ?thesis by auto
  qed
qed


lemma from_string_fields:
  assumes "GranuleId_from_string s = Inr g"
  shows "\<exists>t. s = ''HLS.'' @ Instrument_name (instrument g) @ ''.'' @ t"
proof -
  from assms obtain p i tf a v r where
    sp: "split_on CHR ''.'' s = p # i # tf # a # v # r"
    by (auto simp: GranuleId_from_string_def split: list.splits)
  with assms have p: "p = ''HLS''" and i: "Instrument_named i = Some (instrument g)"
    by (auto simp: GranuleId_from_string_def split: if_splits option.splits)
  from i have iname: "i = Instrument_name (instrument g)"
    by (auto simp: Instrument_named_def split: if_splits)
  from split_on_Cons2 [OF sp] obtain t1 where
    t1: "s = p @ CHR ''.'' # t1" "split_on CHR ''.'' t1 = i # tf # a # v # r" by blast
  from split_on_Cons2 [OF t1(2)] obtain t2 where
    t2: "t1 = i @ CHR ''.'' # t2" by blast
  from t1(1) t2 p iname show ?thesis by auto
qed

lemma valid_L30_startswith:
  "GranuleId_from_string s = Inr g \<Longrightarrow> instrument g = L30 \<Longrightarrow> startswith s ''HLS.L30''"
  using from_string_fields [of s g] by (auto simp: startswith_def)

lemma valid_S30_not_startswith:
  "GranuleId_from_string s = Inr g \<Longrightarrow> instrument g = S30 \<Longrightarrow> \<not> startswith s ''HLS.L30''"
  using from_string_fields [of s g] by (auto simp: startswith_def)

lemma granule_sources_L30:
  "startswith s ''HLS.L30'' \<Longrightarrow>
   granule_sources s =
     [(''lp-prod-public'', ''HLSL30.020/'' @ s @ ''/'' @ s @ ''.jpg''),
      (''lp-prod-protected'', ''HLSL30.020/'' @ s @ ''/'' @ s @ ''.B02.tif''),
      (''lp-prod-protected'', ''HLSL30.020/'' @ s @ ''/'' @ s @ ''.B03.tif''),
      (''lp-prod-protected'', ''HLSL30.020/'' @ s @ ''/'' @ s @ ''.B04.tif''),
      (''lp-prod-protected'', ''HLSL30.020/'' @ s @ ''/'' @ s @ ''.B05.tif''),
      (''lp-prod-protected'', ''HLSL30.020/'' @ s @ ''/'' @ s @ ''.B06.tif''),
      (''lp-prod-protected'', ''HLSL30.020/'' @ s @ ''/'' @ s @ ''.B07.tif''),
      (''lp-prod-protected'', ''HLSL30.020/'' @ s @ ''/'' @ s @ ''.Fmask.tif''),
      (''lp-prod-protected'', ''HLSL30.020/'' @ s @ ''/'' @ s @ ''.cmr.xml'')]"
  by (simp add: granule_sources_def L30Band_def)

lemma granule_sources_S30:
  "\<not> startswith s ''HLS.L30'' \<Longrightarrow>
   granule_sources s =
     [(''lp-prod-public'', ''HLSS30.020/'' @ s @ ''/'' @ s @ ''.jpg''),
      (''lp-prod-protected'', ''HLSS30.020/'' @ s @ ''/'' @ s @ ''.B02.tif''),
      (''lp-prod-protected'', ''HLSS30.020/'' @ s @ ''/'' @ s @ ''.B03.tif''),
      (''lp-prod-protected'', ''HLSS30.020/'' @ s @ ''/'' @ s @ ''.B04.tif''),
      (''lp-prod-protected'', ''HLSS30.020/'' @ s @ ''/'' @ s @ ''.B8A.tif''),
      (''lp-prod-protected'', ''HLSS30.020/'' @ s @ ''/'' @ s @ ''.B11.tif''),
      (''lp-prod-protected'', ''HLSS30.020/'' @ s @ ''/'' @ s @ ''.B12.tif''),
      (''lp-prod-protected'', ''HLSS30.020/'' @ s @ ''/'' @ s @ ''.Fmask.tif''),
      (''lp-prod-protected'', ''HLSS30.020/'' @ s @ ''/'' @ s @ ''.cmr.xml'')]"
  by (simp add: granule_sources_def S30Band_def)


lemma replace_first_at_head:
  "startswith s old \<Longrightarrow> s \<noteq> [] \<Longrightarrow> replace_first old new s = new @ drop (length old) s"
  by (cases s) simp_all

lemma from_string_L30_example:
  "GranuleId_from_string ''HLS.L30.T58UFF.2025105T234951.v2.0'' =
     Inr \<lparr>instrument = L30, tile = ''T58UFF'', acquisition_date = ''2025105T234951'',
          version = ''v2.0''\<rparr>"
  by (simp add: GranuleId_from_string_def Instrument_named_def)

lemma from_string_S30_example:
  "GranuleId_from_string ''HLS.S30.T59VNH.2025105T234641.v2.0'' =
     Inr \<lparr>instrument = S30, tile = ''T59VNH'', acquisition_date = ''2025105T234641'',
          version = ''v2.0''\<rparr>"
  by (simp add: GranuleId_from_string_def Instrument_named_def)


section \<open>Source resolution: the claims\<close>

text \<open>
  C1. For every granule identifier that parses as an L30 granule, \<open>granule_sources\<close>
  returns exactly nine locators in a fixed order: the browse jpg in the public bucket
  under \<open>{collection}/{granule_id}/{granule_id}.jpg\<close>, then in the protected bucket the
  six L30 band tifs in declaration order, the Fmask tif and the cmr.xml. For every
  identifier that parses as an S30 granule the result has the same shape with the S30
  collection and band set.
\<close>

theorem granule_sources_valid:
  "(GranuleId_from_string s = Inr g \<and> instrument g = L30 \<longrightarrow>
      length (granule_sources s) = 9 \<and>
      granule_sources s =
     [(''lp-prod-public'', ''HLSL30.020/'' @ s @ ''/'' @ s @ ''.jpg''),
      (''lp-prod-protected'', ''HLSL30.020/'' @ s @ ''/'' @ s @ ''.B02.tif''),
      (''lp-prod-protected'', ''HLSL30.020/'' @ s @ ''/'' @ s @ ''.B03.tif''),
      (''lp-prod-protected'', ''HLSL30.020/'' @ s @ ''/'' @ s @ ''.B04.tif''),
      (''lp-prod-protected'', ''HLSL30.020/'' @ s @ ''/'' @ s @ ''.B05.tif''),
      (''lp-prod-protected'', ''HLSL30.020/'' @ s @ ''/'' @ s @ ''.B06.tif''),
      (''lp-prod-protected'', ''HLSL30.020/'' @ s @ ''/'' @ s @ ''.B07.tif''),
      (''lp-prod-protected'', ''HLSL30.020/'' @ s @ ''/'' @ s @ ''.Fmask.tif''),
      (''lp-prod-protected'', ''HLSL30.020/'' @ s @ ''/'' @ s @ ''.cmr.xml'')]) \<and>
   (GranuleId_from_string s = Inr g \<and> instrument g = S30 \<longrightarrow>
      length (granule_sources s) = 9 \<and>
      granule_sources s =
     [(''lp-prod-public'', ''HLSS30.020/'' @ s @ ''/'' @ s @ ''.jpg''),
      (''lp-prod-protected'', ''HLSS30.020/'' @ s @ ''/'' @ s @ ''.B02.tif''),
      (''lp-prod-protected'', ''HLSS30.020/'' @ s @ ''/'' @ s @ ''.B03.tif''),
      (''lp-prod-protected'', ''HLSS30.020/'' @ s @ ''/'' @ s @ ''.B04.tif''),
      (''lp-prod-protected'', ''HLSS30.020/'' @ s @ ''/'' @ s @ ''.B8A.tif''),
      (''lp-prod-protected'', ''HLSS30.020/'' @ s @ ''/'' @ s @ ''.B11.tif''),
      (''lp-prod-protected'', ''HLSS30.020/'' @ s @ ''/'' @ s @ ''.B12.tif''),
      (''lp-prod-protected'', ''HLSS30.020/'' @ s @ ''/'' @ s @ ''.Fmask.tif''),
      (''lp-prod-protected'', ''HLSS30.020/'' @ s @ ''/'' @ s @ ''.cmr.xml'')])"
  using valid_L30_startswith [of s g] valid_S30_not_startswith [of s g]
  by (auto simp: granule_sources_L30 granule_sources_S30)

theorem granule_sources_valid_witness:
  "(GranuleId_from_string ''HLS.L30.T58UFF.2025105T234951.v2.0'' =
      Inr \<lparr>instrument = L30, tile = ''T58UFF'', acquisition_date = ''2025105T234951'',
           version = ''v2.0''\<rparr> \<and>
    length (granule_sources ''HLS.L30.T58UFF.2025105T234951.v2.0'') = 9 \<and>
    hd (granule_sources ''HLS.L30.T58UFF.2025105T234951.v2.0'') =
      (''lp-prod-public'',
       ''HLSL30.020/HLS.L30.T58UFF.2025105T234951.v2.0/HLS.L30.T58UFF.2025105T234951.v2.0.jpg'')) \<and>
   (GranuleId_from_string ''HLS.S30.T59VNH.2025105T234641.v2.0'' =
      Inr \<lparr>instrument = S30, tile = ''T59VNH'', acquisition_date = ''2025105T234641'',
           version = ''v2.0''\<rparr> \<and>
    length (granule_sources ''HLS.S30.T59VNH.2025105T234641.v2.0'') = 9 \<and>
    last (granule_sources ''HLS.S30.T59VNH.2025105T234641.v2.0'') =
      (''lp-prod-protected'',
       ''HLSS30.020/HLS.S30.T59VNH.2025105T234641.v2.0/HLS.S30.T59VNH.2025105T234641.v2.0.cmr.xml''))"
  using granule_sources_valid [of "''HLS.L30.T58UFF.2025105T234951.v2.0''"
      "\<lparr>instrument = L30, tile = ''T58UFF'', acquisition_date = ''2025105T234951'',
        version = ''v2.0''\<rparr>"]
    granule_sources_valid [of "''HLS.S30.T59VNH.2025105T234641.v2.0''"
      "\<lparr>instrument = S30, tile = ''T59VNH'', acquisition_date = ''2025105T234641'',
        version = ''v2.0''\<rparr>"]
    from_string_L30_example from_string_S30_example
  by simp

text \<open>
  C10. For every string that does not start with \<open>HLS.L30\<close>, valid identifier or
  not, \<open>granule_sources\<close> returns the S30-shaped result (collection \<open>HLSS30.020\<close> and the
  S30 band set). The function has no failing branch: the instrument is decided by a prefix
  test whose default is S30.
\<close>

theorem granule_sources_default_S30:
  "\<not> startswith s ''HLS.L30'' \<Longrightarrow>
   granule_sources s =
     [(''lp-prod-public'', ''HLSS30.020/'' @ s @ ''/'' @ s @ ''.jpg''),
      (''lp-prod-protected'', ''HLSS30.020/'' @ s @ ''/'' @ s @ ''.B02.tif''),
      (''lp-prod-protected'', ''HLSS30.020/'' @ s @ ''/'' @ s @ ''.B03.tif''),
      (''lp-prod-protected'', ''HLSS30.020/'' @ s @ ''/'' @ s @ ''.B04.tif''),
      (''lp-prod-protected'', ''HLSS30.020/'' @ s @ ''/'' @ s @ ''.B8A.tif''),
      (''lp-prod-protected'', ''HLSS30.020/'' @ s @ ''/'' @ s @ ''.B11.tif''),
      (''lp-prod-protected'', ''HLSS30.020/'' @ s @ ''/'' @ s @ ''.B12.tif''),
      (''lp-prod-protected'', ''HLSS30.020/'' @ s @ ''/'' @ s @ ''.Fmask.tif''),
      (''lp-prod-protected'', ''HLSS30.020/'' @ s @ ''/'' @ s @ ''.cmr.xml'')]"
  by (rule granule_sources_S30)

theorem granule_sources_default_S30_witness:
  "\<not> startswith ''not a granule'' ''HLS.L30'' \<and>
   granule_sources ''not a granule'' =
     [(''lp-prod-public'', ''HLSS30.020/'' @ ''not a granule'' @ ''/'' @ ''not a granule'' @ ''.jpg''),
      (''lp-prod-protected'', ''HLSS30.020/'' @ ''not a granule'' @ ''/'' @ ''not a granule'' @ ''.B02.tif''),
      (''lp-prod-protected'', ''HLSS30.020/'' @ ''not a granule'' @ ''/'' @ ''not a granule'' @ ''.B03.tif''),
      (''lp-prod-protected'', ''HLSS30.020/'' @ ''not a granule'' @ ''/'' @ ''not a granule'' @ ''.B04.tif''),
      (''lp-prod-protected'', ''HLSS30.020/'' @ ''not a granule'' @ ''/'' @ ''not a granule'' @ ''.B8A.tif''),
      (''lp-prod-protected'', ''HLSS30.020/'' @ ''not a granule'' @ ''/'' @ ''not a granule'' @ ''.B11.tif''),
      (''lp-prod-protected'', ''HLSS30.020/'' @ ''not a granule'' @ ''/'' @ ''not a granule'' @ ''.B12.tif''),
      (''lp-prod-protected'', ''HLSS30.020/'' @ ''not a granule'' @ ''/'' @ ''not a granule'' @ ''.Fmask.tif''),
      (''lp-prod-protected'', ''HLSS30.020/'' @ ''not a granule'' @ ''/'' @ ''not a granule'' @ ''.cmr.xml'')]"
  using granule_sources_default_S30 [of "''not a granule''"]
  by (simp add: startswith_def)


section \<open>Output keys: the claims\<close>

text \<open>
  C3. \<open>output_key_prefix\<close> maps \<open>HLS.L30.T58UFF.2025105T234951.v2.0\<close> to
  \<open>L30_VI/data/2025105/HLS-VI.L30.T58UFF.2025105T234951.v2.0\<close> and
  \<open>HLS.S30.T59VNH.2025105T234641.v2.0\<close> to
  \<open>S30_VI/data/2025105/HLS-VI.S30.T59VNH.2025105T234641.v2.0\<close>. In general, for an
  identifier that parses, the result is \<open>{instrument}_VI/data/{yyyyddd}/{vi_granule_id}\<close>,
  where \<open>yyyyddd\<close> is the first seven characters of the acquisition timestamp and
  \<open>vi_granule_id\<close> is the identifier with its first \<open>HLS\<close> replaced by \<open>HLS-VI\<close>
  (which, for an identifier that parses, is the leading one).
\<close>

theorem output_key_prefix_format:
  "output_key_prefix ''HLS.L30.T58UFF.2025105T234951.v2.0'' =
     Inr ''L30_VI/data/2025105/HLS-VI.L30.T58UFF.2025105T234951.v2.0'' \<and>
   output_key_prefix ''HLS.S30.T59VNH.2025105T234641.v2.0'' =
     Inr ''S30_VI/data/2025105/HLS-VI.S30.T59VNH.2025105T234641.v2.0'' \<and>
   (GranuleId_from_string s = Inr g \<longrightarrow>
      output_key_prefix s =
        Inr (Instrument_name (instrument g) @ ''_VI/data/'' @ take 7 (acquisition_date g) @
             ''/'' @ replace_first ''HLS'' ''HLS-VI'' s) \<and>
      replace_first ''HLS'' ''HLS-VI'' s = ''HLS-VI'' @ drop 3 s)"
proof (intro conjI impI)
  show "output_key_prefix ''HLS.L30.T58UFF.2025105T234951.v2.0'' =
     Inr ''L30_VI/data/2025105/HLS-VI.L30.T58UFF.2025105T234951.v2.0''"
    by (simp add: output_key_prefix_def from_string_L30_example startswith_def)
  show "output_key_prefix ''HLS.S30.T59VNH.2025105T234641.v2.0'' =
     Inr ''S30_VI/data/2025105/HLS-VI.S30.T59VNH.2025105T234641.v2.0''"
    by (simp add: output_key_prefix_def from_string_S30_example startswith_def)
next
  assume ok: "GranuleId_from_string s = Inr g"
  then show "output_key_prefix s =
        Inr (Instrument_name (instrument g) @ ''_VI/data/'' @ take 7 (acquisition_date g) @
             ''/'' @ replace_first ''HLS'' ''HLS-VI'' s)"
    by (simp add: output_key_prefix_def)
  from from_string_fields [OF ok] obtain t where
    "s = ''HLS.'' @ Instrument_name (instrument g) @ ''.'' @ t" by blast
  then have "startswith s ''HLS''" "s \<noteq> []"
    by (auto simp: startswith_def)
  then show "replace_first ''HLS'' ''HLS-VI'' s = ''HLS-VI'' @ drop 3 s"
    using replace_first_at_head [of s "''HLS''" "''HLS-VI''"] by (simp add: numeral_3_eq_3)
qed

theorem output_key_prefix_format_witness:
  "GranuleId_from_string ''HLS.S30.T01ABC.2024001T000000.v2.0'' =
     Inr \<lparr>instrument = S30, tile = ''T01ABC'', acquisition_date = ''2024001T000000'',
          version = ''v2.0''\<rparr> \<and>
   output_key_prefix ''HLS.S30.T01ABC.2024001T000000.v2.0'' =
     Inr ''S30_VI/data/2024001/HLS-VI.S30.T01ABC.2024001T000000.v2.0''"
proof -
  have p: "GranuleId_from_string ''HLS.S30.T01ABC.2024001T000000.v2.0'' =
     Inr \<lparr>instrument = S30, tile = ''T01ABC'', acquisition_date = ''2024001T000000'',
          version = ''v2.0''\<rparr>"
    by (simp add: GranuleId_from_string_def Instrument_named_def)
  from output_key_prefix_format [of "''HLS.S30.T01ABC.2024001T000000.v2.0''"
      "\<lparr>instrument = S30, tile = ''T01ABC'', acquisition_date = ''2024001T000000'',
        version = ''v2.0''\<rparr>"] p
  show ?thesis by simp
qed









lemma rfind_bounds: "-1 \<le> rfind s c \<and> rfind s c < int (length s)"
  by (induction s) (auto simp: Let_def)

lemma rfind_none: "rfind s c = -1 \<longleftrightarrow> c \<notin> set s"
proof (induction s)
  case Nil
  then show ?case by simp
next
  case (Cons x xs)
  have "-1 \<le> rfind xs c" using rfind_bounds [of xs c] by simp
  then have "rfind xs c = -1 \<or> 0 \<le> rfind xs c" by arith
  with Cons show ?case by (auto simp: Let_def)
qed

lemma basename_Cons:
  "basename (x # xs) = (if 0 \<le> rfind xs CHR ''/'' then basename xs
                        else if x = CHR ''/'' then xs else x # xs)"
  using rfind_bounds [of xs "CHR ''/''"]
  by (auto simp: basename_def Let_def nat_add_distrib)





section \<open>Facts about the file system\<close>

lemma absolute_log_event [simp]: "absolute (log_event e w) p = absolute w p"
  by (simp add: absolute_def log_event_def)

lemma exists_log_event [simp]: "exists (log_event e w) p = exists w p"
  by (simp add: exists_def absolute_def log_event_def)

lemma cwd_log_event [simp]: "cwd (log_event e w) = cwd w"
  by (simp add: log_event_def)

lemma nodes_log_event [simp]: "nodes (log_event e w) = nodes w"
  by (simp add: log_event_def)

lemma trace_log_event [simp]: "trace (log_event e w) = trace w @ [e]"
  by (simp add: log_event_def)

lemma absolute_nodes_update [simp]: "absolute (w\<lparr>nodes := ns\<rparr>) p = absolute w p"
  by (simp add: absolute_def)

lemma resolve_append:
  "resolve ns loc xs = Some d \<Longrightarrow> is_dir_at ns d \<Longrightarrow> resolve ns loc (xs @ ys) = resolve ns d ys"
proof (induction xs arbitrary: loc)
  case Nil
  then show ?case by (cases ys) (auto split: if_splits)
next
  case (Cons x xs)
  then show ?case by (auto split: if_splits)
qed

lemma resolve_mono:
  assumes dirs: "\<And>x. is_dir_at ns' x = is_dir_at ns x"
    and ex: "\<And>x. exists_at ns x \<Longrightarrow> exists_at ns' x"
  shows "resolve ns loc cs = Some d \<Longrightarrow> resolve ns' loc cs = Some d"
proof (induction cs arbitrary: loc)
  case Nil
  then show ?case using ex by (auto split: if_splits)
next
  case (Cons c cs)
  then show ?case using dirs by (auto split: if_splits)
qed

lemma write_file_Inr:
  assumes "write_file w p body = (Inr u, w')"
  shows "\<exists>d loc. parts (absolute w p) \<noteq> [] \<and>
           resolve (nodes w) [] (butlast (parts (absolute w p))) = Some d \<and>
           is_dir_at (nodes w) d \<and>
           loc = (if last (parts (absolute w p)) = ''..'' then butlast d
                  else d @ [last (parts (absolute w p))]) \<and>
           \<not> is_dir_at (nodes w) loc \<and>
           w' = w\<lparr>nodes := (loc, File body) # nodes w\<rparr>"
  using assms
  by (auto simp: write_file_def Let_def split: if_splits option.splits)

lemma write_file_Inl: "write_file w p body = (Inl e, w') \<Longrightarrow> w' = w"
  by (auto simp: write_file_def Let_def split: if_splits option.splits)

lemma write_file_cwd: "cwd (snd (write_file w p body)) = cwd w"
  by (auto simp: write_file_def Let_def split: if_splits option.splits)

lemma write_file_trace: "trace (snd (write_file w p body)) = trace w"
  by (auto simp: write_file_def Let_def split: if_splits option.splits)

lemma add_file_dirs:
  "\<not> is_dir_at ns loc \<Longrightarrow> is_dir_at ((loc, File body) # ns) x = is_dir_at ns x"
  by (auto simp: is_dir_at_def)

lemma add_file_exists: "exists_at ns x \<Longrightarrow> exists_at ((loc, File body) # ns) x"
  by (auto simp: exists_at_def)

lemma write_file_keeps:
  assumes "exists w q"
  shows "exists (snd (write_file w p body)) q"
proof (cases "write_file w p body")
  case (Pair r w')
  show ?thesis
  proof (cases r)
    case (Inl e)
    with Pair assms write_file_Inl [of w p body e w'] show ?thesis by simp
  next
    case (Inr u)
    with Pair write_file_Inr [of w p body u w'] obtain loc where
      nd: "\<not> is_dir_at (nodes w) loc" and w': "w' = w\<lparr>nodes := (loc, File body) # nodes w\<rparr>"
      by blast
    from assms obtain d where d: "resolve (nodes w) [] (parts (absolute w q)) = Some d"
      by (auto simp: exists_def)
    have "resolve ((loc, File body) # nodes w) [] (parts (absolute w q)) = Some d"
      by (rule resolve_mono [OF add_file_dirs [OF nd] add_file_exists d])
    with Pair w' show ?thesis by (simp add: exists_def)
  qed
qed

lemma write_file_creates:
  assumes "write_file w p body = (Inr u, w')"
  shows "exists w' p"
proof -
  let ?ps = "parts (absolute w p)"
  from write_file_Inr [OF assms] obtain d loc where
    ne: "?ps \<noteq> []" and r: "resolve (nodes w) [] (butlast ?ps) = Some d"
    and dd: "is_dir_at (nodes w) d"
    and loc: "loc = (if last ?ps = ''..'' then butlast d else d @ [last ?ps])"
    and nd: "\<not> is_dir_at (nodes w) loc"
    and w': "w' = w\<lparr>nodes := (loc, File body) # nodes w\<rparr>"
    by blast
  let ?ns = "(loc, File body) # nodes w"
  have r': "resolve ?ns [] (butlast ?ps) = Some d"
    by (rule resolve_mono [OF add_file_dirs [OF nd] add_file_exists r])
  have dd': "is_dir_at ?ns d" using dd add_file_dirs [OF nd] by simp
  have "resolve ?ns [] (butlast ?ps @ [last ?ps]) = resolve ?ns d [last ?ps]"
    by (rule resolve_append [OF r' dd'])
  also have "\<dots> = Some loc" using dd' loc by (simp add: exists_at_def)
  finally have "resolve ?ns [] ?ps \<noteq> None" using ne by simp
  with w' show ?thesis by (simp add: exists_def)
qed

section \<open>Facts about the production downloader\<close>

lemma s3_downloader_creates:
  "make_s3_downloader s3 src dst v = (Inr u, v') \<Longrightarrow> exists v' dst"
  by (auto simp: make_s3_downloader_def split: prod.splits sum.splits dest: write_file_creates)

lemma s3_downloader_keeps:
  "exists v p \<Longrightarrow> exists (snd (make_s3_downloader s3 src dst v)) p"
  by (auto simp: make_s3_downloader_def write_file_keeps split: prod.splits sum.splits)

lemma s3_downloader_cwd: "cwd (snd (make_s3_downloader s3 src dst v)) = cwd v"
  by (auto simp: make_s3_downloader_def write_file_cwd split: prod.splits sum.splits)

lemma s3_downloader_trace: "trace (snd (make_s3_downloader s3 src dst v)) = trace v"
  by (auto simp: make_s3_downloader_def write_file_trace split: prod.splits sum.splits)


section \<open>Facts about the transfer engine\<close>

lemma missing_files_eq:
  "missing_files srcs dst_dir w =
     map (\<lambda>src. (src, absolute w (truediv dst_dir (basename (snd src)))))
         (filter (\<lambda>src. \<not> exists w (absolute w (truediv dst_dir (basename (snd src))))) srcs)"
  by (induction srcs) (auto simp: missing_files_def)


lemma executor_map_success:
  assumes contract: "\<And>src dst v u v'. dl src dst v = (Inr u, v') \<Longrightarrow>
      exists v' dst \<and> (\<forall>p. exists v p \<longrightarrow> exists v' p) \<and> cwd v' = cwd v"
  shows "executor_map dl started ts w = (Inr u, w') \<Longrightarrow>
     cwd w' = cwd w \<and> (\<forall>p. exists w p \<longrightarrow> exists w' p) \<and> (\<forall>(src, dst) \<in> set ts. exists w' dst)"
proof (induction ts arbitrary: w)
  case Nil
  then show ?case by simp
next
  case (Cons t ts)
  obtain src dst where t: "t = (src, dst)" by (cases t)
  from Cons.prems t obtain u1 v where
    step: "dl src dst (log_event (Fetch src dst) w) = (Inr u1, v)"
    and rest: "executor_map dl started ts v = (Inr u, w')"
    by (auto split: prod.splits sum.splits)
  from contract [OF step] have
    v: "exists v dst" "\<forall>p. exists w p \<longrightarrow> exists v p" "cwd v = cwd w" by simp_all
  from Cons.IH [OF rest] have
    w': "cwd w' = cwd v" "\<forall>p. exists v p \<longrightarrow> exists w' p" "\<forall>(src, dst) \<in> set ts. exists w' dst"
    by simp_all
  from v w' t show ?case by auto
qed



lemma executor_map_success_trace:
  assumes "\<And>src dst v. trace (snd (dl src dst v)) = trace v"
  shows "executor_map dl started ts w = (Inr u, w') \<Longrightarrow>
     trace w' = trace w @ map (\<lambda>(src, dst). Fetch src dst) ts"
proof (induction ts arbitrary: w)
  case Nil
  then show ?case by simp
next
  case (Cons t ts)
  obtain src dst where t: "t = (src, dst)" by (cases t)
  from Cons.prems t obtain u1 v where
    step: "dl src dst (log_event (Fetch src dst) w) = (Inr u1, v)"
    and rest: "executor_map dl started ts v = (Inr u, w')"
    by (auto split: prod.splits sum.splits)
  from assms [of src dst "log_event (Fetch src dst) w"] step
  have "trace v = trace w @ [Fetch src dst]" by simp
  with Cons.IH [OF rest] t show ?case by simp
qed





section \<open>The transfer engine: the claims\<close>




text \<open>
  C2. Idempotence. Let the downloader, whenever it succeeds, leave its destination in
  existence, remove nothing and stay in the same working directory. After a first call of
  \<open>download_files\<close> that succeeded, a second call with the same sources and destination
  directory finds nothing missing: it invokes the downloader not once (the world, with its
  trace of calls, is unchanged) and returns the empty pair.
\<close>

theorem download_files_idempotent:
  assumes "\<forall>src dst v u v'. dl src dst v = (Inr u, v') \<longrightarrow>
             exists v' dst \<and> (\<forall>p. exists v p \<longrightarrow> exists v' p) \<and> cwd v' = cwd v"
    and "download_files dl started srcs dst_dir w = (Inr r, w1)"
  shows "missing_files srcs dst_dir w1 = [] \<and>
         download_files dl started' srcs dst_dir w1 = (Inr ([], []), w1) \<and>
         trace (snd (download_files dl started' srcs dst_dir w1)) = trace w1"
proof -
  let ?lp = "\<lambda>v src. absolute v (truediv dst_dir (basename (snd src)))"
  from assms(2) obtain u where
    run: "executor_map dl started (missing_files srcs dst_dir w) w = (Inr u, w1)"
    by (auto simp: download_files_def Let_def split: prod.splits sum.splits)
  from assms(1) have contract: "\<And>src dst v u v'. dl src dst v = (Inr u, v') \<Longrightarrow>
      exists v' dst \<and> (\<forall>p. exists v p \<longrightarrow> exists v' p) \<and> cwd v' = cwd v"
    by blast
  from executor_map_success [of dl started "missing_files srcs dst_dir w" w u w1, OF contract run]
  have cwd: "cwd w1 = cwd w"
    and keep: "\<forall>p. exists w p \<longrightarrow> exists w1 p"
    and got: "\<forall>(src, dst) \<in> set (missing_files srcs dst_dir w). exists w1 dst"
    by simp_all
  have lp: "?lp w1 src = ?lp w src" for src :: locator
    using cwd by (simp add: absolute_def)
  have "exists w1 (?lp w1 src)" if "src \<in> set srcs" for src :: locator
  proof (cases "exists w (?lp w src)")
    case True
    with keep have "exists w1 (?lp w src)" by blast
    then show ?thesis by (simp only: lp)
  next
    case False
    with that have "(src, ?lp w src) \<in> set (missing_files srcs dst_dir w)"
      by (auto simp: missing_files_eq)
    with got have "exists w1 (?lp w src)" by blast
    then show ?thesis by (simp only: lp)
  qed
  then have none: "missing_files srcs dst_dir w1 = []"
    by (auto simp: missing_files_eq filter_empty_conv)
  then show ?thesis by (simp add: download_files_def)
qed

theorem download_files_idempotent_witness:
  "download_files (make_s3_downloader (s3_serving (\<lambda>key. True))) 0
     [(''b'', ''k/a.tif''), (''b'', ''k/g/c.xml'')] (Path False [''in'']) example_world =
   (Inr ([(''b'', ''k/g/c.xml'')], [Path True [''work'', ''in'', ''c.xml'']]),
    \<lparr>cwd = [''work''],
       nodes = [([''work'', ''in'', ''c.xml''], File ''data''), ([''work''], Dir),
                ([''work'', ''in''], Dir), ([''work'', ''in'', ''a.tif''], File ''old'')],
       trace = [Fetch (''b'', ''k/g/c.xml'') (Path True [''work'', ''in'', ''c.xml''])]\<rparr>) \<and>
   download_files (make_s3_downloader (s3_serving (\<lambda>key. True))) 0
     [(''b'', ''k/a.tif''), (''b'', ''k/g/c.xml'')] (Path False [''in''])
     \<lparr>cwd = [''work''],
       nodes = [([''work'', ''in'', ''c.xml''], File ''data''), ([''work''], Dir),
                ([''work'', ''in''], Dir), ([''work'', ''in'', ''a.tif''], File ''old'')],
       trace = [Fetch (''b'', ''k/g/c.xml'') (Path True [''work'', ''in'', ''c.xml''])]\<rparr> =
   (Inr ([], []),
    \<lparr>cwd = [''work''],
       nodes = [([''work'', ''in'', ''c.xml''], File ''data''), ([''work''], Dir),
                ([''work'', ''in''], Dir), ([''work'', ''in'', ''a.tif''], File ''old'')],
       trace = [Fetch (''b'', ''k/g/c.xml'') (Path True [''work'', ''in'', ''c.xml''])]\<rparr>)"
proof -
  let ?dl = "make_s3_downloader (s3_serving (\<lambda>key. True))"
  have contract: "\<forall>src dst v u v'. ?dl src dst v = (Inr u, v') \<longrightarrow>
             exists v' dst \<and> (\<forall>p. exists v p \<longrightarrow> exists v' p) \<and> cwd v' = cwd v"
  proof (intro allI impI)
    fix src dst v u v'
    assume a: "?dl src dst v = (Inr u, v')"
    then have v': "v' = snd (?dl src dst v)" by simp
    from a have "exists v' dst" by (rule s3_downloader_creates)
    moreover have "\<forall>p. exists v p \<longrightarrow> exists v' p"
      unfolding v' by (simp add: s3_downloader_keeps)
    moreover have "cwd v' = cwd v" unfolding v' by (rule s3_downloader_cwd)
    ultimately show "exists v' dst \<and> (\<forall>p. exists v p \<longrightarrow> exists v' p) \<and> cwd v' = cwd v"
      by blast
  qed
  have run: "download_files ?dl 0
     [(''b'', ''k/a.tif''), (''b'', ''k/g/c.xml'')] (Path False [''in'']) example_world =
   (Inr ([(''b'', ''k/g/c.xml'')], [Path True [''work'', ''in'', ''c.xml'']]),
    \<lparr>cwd = [''work''],
       nodes = [([''work'', ''in'', ''c.xml''], File ''data''), ([''work''], Dir),
                ([''work'', ''in''], Dir), ([''work'', ''in'', ''a.tif''], File ''old'')],
       trace = [Fetch (''b'', ''k/g/c.xml'') (Path True [''work'', ''in'', ''c.xml''])]\<rparr>)"
    by (simp add: download_files_def missing_files_def basename_def truediv_def parse_path_def
      startswith_def absolute_def exists_def example_world_def is_dir_at_def exists_at_def
      log_event_def Let_def make_s3_downloader_def s3_serving_def write_file_def)
  from download_files_idempotent [OF contract run, of 0] run show ?thesis by simp
qed






section \<open>Facts about the publish stage\<close>

lemma read_file_log_event [simp]: "read_file (log_event e w) p = read_file w p"
  by (simp add: read_file_def split: option.splits)

lemma read_file_log_event_fun [simp]: "read_file (log_event e w) = read_file w"
  by (rule ext) simp

lemma log_event_trace_update:
  "log_event e (w\<lparr>trace := t\<rparr>) = w\<lparr>trace := t @ [e]\<rparr>"
  by (simp add: log_event_def)

lemma put_file_Inr:
  "put_file s3 bucket key src acl w = (Inr u, w') \<Longrightarrow>
   \<exists>body. read_file w src = Inr body \<and> w' = log_event (Put_object bucket key body acl) w"
  by (auto simp: put_file_def split: sum.splits option.splits)

lemma upload_each_Inr:
  "upload_each s3 bucket kp acl srcs w = (Inr u, w') \<Longrightarrow>
   \<exists>bodies. map (read_file w) srcs = map Inr bodies \<and>
     trace w' = trace w @
       map (\<lambda>(src, body). Put_object bucket (kp @ ''/'' @ path_name src) body acl) (zip srcs bodies) \<and>
     nodes w' = nodes w \<and> cwd w' = cwd w"
proof (induction srcs arbitrary: w)
  case Nil
  then show ?case by simp
next
  case (Cons src srcs)
  from Cons.prems obtain u1 w1 where
    first: "put_file s3 bucket (kp @ ''/'' @ path_name src) src acl w = (Inr u1, w1)"
    and rest: "upload_each s3 bucket kp acl srcs w1 = (Inr u, w')"
    by (auto split: prod.splits sum.splits)
  from put_file_Inr [OF first] obtain body where
    body: "read_file w src = Inr body"
    and w1: "w1 = log_event (Put_object bucket (kp @ ''/'' @ path_name src) body acl) w"
    by blast
  from Cons.IH [OF rest] obtain bodies where
    IH: "map (read_file w1) srcs = map Inr bodies"
      "trace w' = trace w1 @
         map (\<lambda>(src, body). Put_object bucket (kp @ ''/'' @ path_name src) body acl) (zip srcs bodies)"
      "nodes w' = nodes w1" "cwd w' = cwd w1"
    by blast
  from IH(1) w1 have "map (read_file w) (src # srcs) = map Inr (body # bodies)"
    using body by simp
  moreover from IH(2) w1 have "trace w' = trace w @
       map (\<lambda>(src, body). Put_object bucket (kp @ ''/'' @ path_name src) body acl)
         (zip (src # srcs) (body # bodies))"
    by simp
  moreover from IH(3,4) w1 have "nodes w' = nodes w" "cwd w' = cwd w" by simp_all
  ultimately show ?case by blast
qed

lemma create_manifest_Inr:
  assumes "create_manifest hm job_id granule_id dir bucket w = (Inr mp, w')"
    and quiet: "\<And>args v. trace (snd (hm args v)) = trace v"
  shows "\<exists>kp cs vi. output_key_prefix granule_id = Inr kp \<and>
           mp = truediv dir (vi @ ''.json'') \<and>
           trace w' = trace w @
             [Manifest [path_str dir, path_str mp, ''s3://'' @ bucket @ ''/'' @ kp,
                        ''HLS'' @ cs, vi, job_id, ''false'']]"
proof -
  from assms(1) obtain kp where kp: "output_key_prefix granule_id = Inr kp"
    by (auto simp: create_manifest_def split: sum.splits)
  with assms(1) obtain cs others where sp: "split_on CHR ''/'' kp = cs # others" "others \<noteq> []"
    by (auto simp: create_manifest_def split: list.splits if_splits)
  let ?vi = "last others"
  let ?mp = "truediv dir (?vi @ ''.json'')"
  let ?args = "[path_str dir, path_str ?mp, ''s3://'' @ bucket @ ''/'' @ kp,
                ''HLS'' @ cs, ?vi, job_id, ''false'']"
  from assms(1) kp sp have mp: "mp = ?mp"
    and w': "w' = snd (hm ?args (log_event (Manifest ?args) w))"
    by (auto simp: create_manifest_def Let_def split: prod.splits sum.splits)
  from w' have "trace w' = trace w @ [Manifest ?args]" by (simp add: quiet)
  with kp mp show ?thesis by blast
qed

section \<open>The publish stage: the claims\<close>

text \<open>
  C6. Let \<open>upload_outputs\<close> complete on an output directory listing \<open>N\<close> files, with a
  manifest generator that issues no upload of its own. Then exactly \<open>N + 1\<close> upload calls
  were issued: one per listed file, in listing order and carrying that file's content, then
  the manifest generator ran, and the upload of the manifest came last. The manifest goes
  under the same key prefix as the artifacts and with the same ACL, \<open>public-read\<close> in debug
  mode and \<open>private\<close> otherwise.
\<close>

theorem upload_outputs_calls:
  assumes "upload_outputs s3 hm job_id granule_id output_dir bucket debug w = (Inr u, w')"
    and "\<forall>args v. trace (snd (hm args v)) = trace v"
  shows "\<exists>kp srcs bodies cs vi mbody.
           output_key_prefix granule_id = Inr kp \<and>
           iterdir w output_dir = Inr srcs \<and>
           map (read_file w) srcs = map Inr bodies \<and>
           trace w' = trace w @
             map (\<lambda>(src, body).
                    Put_object bucket (kp @ ''/'' @ path_name src) body
                      (if debug then ''public-read'' else ''private''))
                 (zip srcs bodies) @
             [Manifest [path_str output_dir, path_str (truediv output_dir (vi @ ''.json'')),
                        ''s3://'' @ bucket @ ''/'' @ kp, ''HLS'' @ cs, vi, job_id, ''false''],
              Put_object bucket (kp @ ''/'' @ path_name (truediv output_dir (vi @ ''.json''))) mbody
                (if debug then ''public-read'' else ''private'')] \<and>
           length (filter (\<lambda>e. case e of Put_object _ _ _ _ \<Rightarrow> True | _ \<Rightarrow> False)
                     (drop (length (trace w)) (trace w'))) = length srcs + 1"
proof -
  let ?acl = "if debug then ''public-read'' else ''private''"
  from assms(2) have quiet: "\<And>args v. trace (snd (hm args v)) = trace v" by blast
  from assms(1) obtain kp where kp: "output_key_prefix granule_id = Inr kp"
    by (auto simp: upload_outputs_def split: sum.splits)
  with assms(1) obtain srcs where srcs: "iterdir w output_dir = Inr srcs"
    by (auto simp: upload_outputs_def Let_def split: sum.splits)
  with assms(1) kp obtain u1 w1 where
    loop: "upload_each s3 bucket kp ?acl srcs w = (Inr u1, w1)"
    by (auto simp: upload_outputs_def Let_def split: sum.splits prod.splits if_splits)
  with assms(1) kp srcs obtain mp w2 where
    man: "create_manifest hm job_id granule_id output_dir bucket w1 = (Inr mp, w2)"
    by (auto simp: upload_outputs_def Let_def split: sum.splits prod.splits if_splits)
  with assms(1) kp srcs loop have
    final: "put_file s3 bucket (kp @ ''/'' @ path_name mp) mp ?acl w2 = (Inr u, w')"
    by (auto simp: upload_outputs_def Let_def split: sum.splits prod.splits if_splits)
  from upload_each_Inr [OF loop] obtain bodies where
    b: "map (read_file w) srcs = map Inr bodies"
      "trace w1 = trace w @
         map (\<lambda>(src, body). Put_object bucket (kp @ ''/'' @ path_name src) body ?acl) (zip srcs bodies)"
    by blast
  from create_manifest_Inr [OF man quiet] kp obtain cs vi where
    m: "mp = truediv output_dir (vi @ ''.json'')"
      "trace w2 = trace w1 @
         [Manifest [path_str output_dir, path_str mp, ''s3://'' @ bucket @ ''/'' @ kp,
                    ''HLS'' @ cs, vi, job_id, ''false'']]"
    by auto
  from put_file_Inr [OF final] obtain mbody where
    f: "w' = log_event (Put_object bucket (kp @ ''/'' @ path_name mp) mbody ?acl) w2"
    by blast
  let ?puts = "map (\<lambda>(src, body). Put_object bucket (kp @ ''/'' @ path_name src) body ?acl) (zip srcs bodies)"
  from b(2) m f have tr: "trace w' = trace w @ ?puts @
             [Manifest [path_str output_dir, path_str (truediv output_dir (vi @ ''.json'')),
                        ''s3://'' @ bucket @ ''/'' @ kp, ''HLS'' @ cs, vi, job_id, ''false''],
              Put_object bucket (kp @ ''/'' @ path_name (truediv output_dir (vi @ ''.json''))) mbody ?acl]"
    by simp
  from b(1) have len: "length bodies = length srcs"
    by (metis length_map)
  have "filter (\<lambda>e. case e of Put_object _ _ _ _ \<Rightarrow> True | _ \<Rightarrow> False) ?puts = ?puts"
    by (auto simp: filter_id_conv)
  then have cnt: "length (filter (\<lambda>e. case e of Put_object _ _ _ _ \<Rightarrow> True | _ \<Rightarrow> False)
                     (drop (length (trace w)) (trace w'))) = length srcs + 1"
    using tr len by simp
  from kp srcs b(1) tr cnt show ?thesis by blast
qed

lemma sample_manifest_quiet: "trace (snd (sample_manifest args v)) = trace v"
  by (simp add: sample_manifest_def write_file_trace split: list.splits)

theorem upload_outputs_calls_witness:
  "upload_outputs (s3_serving (\<lambda>key. True)) sample_manifest ''job-1'' ''HLS.L30.T58UFF.2025105T234951.v2.0''
     (Path True [''var'', ''scratch'', ''job'', ''hls-vi'']) ''lp-prod-output'' False scratch_world =
   (Inr (),
    \<lparr>cwd = [],
       nodes = [([''var'', ''scratch'', ''job'', ''hls-vi'', ''HLS-VI.L30.T58UFF.2025105T234951.v2.0.json''],
                 File ''manifest''),
                ([''var''], Dir), ([''var'', ''scratch''], Dir), ([''var'', ''scratch'', ''job''], Dir),
                ([''var'', ''scratch'', ''job'', ''hls''], Dir),
                ([''var'', ''scratch'', ''job'', ''hls-vi''], Dir),
                ([''var'', ''scratch'', ''job'', ''hls-vi'', ''NDVI.tif''], File ''ndvi''),
                ([''var'', ''scratch'', ''job'', ''hls-vi'', ''EVI.tif''], File ''evi'')],
       trace = [Put_object ''lp-prod-output'' ''L30_VI/data/2025105/HLS-VI.L30.T58UFF.2025105T234951.v2.0/NDVI.tif'' ''ndvi'' ''private'',
                Put_object ''lp-prod-output'' ''L30_VI/data/2025105/HLS-VI.L30.T58UFF.2025105T234951.v2.0/EVI.tif'' ''evi'' ''private'',
                Manifest [''/var/scratch/job/hls-vi'',
                          ''/var/scratch/job/hls-vi/HLS-VI.L30.T58UFF.2025105T234951.v2.0.json'',
                          ''s3://lp-prod-output/L30_VI/data/2025105/HLS-VI.L30.T58UFF.2025105T234951.v2.0'',
                          ''HLSL30_VI'', ''HLS-VI.L30.T58UFF.2025105T234951.v2.0'', ''job-1'', ''false''],
                Put_object ''lp-prod-output'' ''L30_VI/data/2025105/HLS-VI.L30.T58UFF.2025105T234951.v2.0/HLS-VI.L30.T58UFF.2025105T234951.v2.0.json''
                  ''manifest'' ''private'']\<rparr>) \<and>
   (\<forall>args v. trace (snd (sample_manifest args v)) = trace v) \<and>
   iterdir scratch_world (Path True [''var'', ''scratch'', ''job'', ''hls-vi'']) =
     Inr [Path True [''var'', ''scratch'', ''job'', ''hls-vi'', ''NDVI.tif''],
          Path True [''var'', ''scratch'', ''job'', ''hls-vi'', ''EVI.tif'']] \<and>
   length (filter (\<lambda>e. case e of Put_object _ _ _ _ \<Rightarrow> True | _ \<Rightarrow> False)
             (drop (length (trace scratch_world))
                (trace
    \<lparr>cwd = [],
       nodes = [([''var'', ''scratch'', ''job'', ''hls-vi'', ''HLS-VI.L30.T58UFF.2025105T234951.v2.0.json''],
                 File ''manifest''),
                ([''var''], Dir), ([''var'', ''scratch''], Dir), ([''var'', ''scratch'', ''job''], Dir),
                ([''var'', ''scratch'', ''job'', ''hls''], Dir),
                ([''var'', ''scratch'', ''job'', ''hls-vi''], Dir),
                ([''var'', ''scratch'', ''job'', ''hls-vi'', ''NDVI.tif''], File ''ndvi''),
                ([''var'', ''scratch'', ''job'', ''hls-vi'', ''EVI.tif''], File ''evi'')],
       trace = [Put_object ''lp-prod-output'' ''L30_VI/data/2025105/HLS-VI.L30.T58UFF.2025105T234951.v2.0/NDVI.tif'' ''ndvi'' ''private'',
                Put_object ''lp-prod-output'' ''L30_VI/data/2025105/HLS-VI.L30.T58UFF.2025105T234951.v2.0/EVI.tif'' ''evi'' ''private'',
                Manifest [''/var/scratch/job/hls-vi'',
                          ''/var/scratch/job/hls-vi/HLS-VI.L30.T58UFF.2025105T234951.v2.0.json'',
                          ''s3://lp-prod-output/L30_VI/data/2025105/HLS-VI.L30.T58UFF.2025105T234951.v2.0'',
                          ''HLSL30_VI'', ''HLS-VI.L30.T58UFF.2025105T234951.v2.0'', ''job-1'', ''false''],
                Put_object ''lp-prod-output'' ''L30_VI/data/2025105/HLS-VI.L30.T58UFF.2025105T234951.v2.0/HLS-VI.L30.T58UFF.2025105T234951.v2.0.json''
                  ''manifest'' ''private'']\<rparr>))) = 2 + 1"
proof -
  have run: "upload_outputs (s3_serving (\<lambda>key. True)) sample_manifest ''job-1'' ''HLS.L30.T58UFF.2025105T234951.v2.0''
     (Path True [''var'', ''scratch'', ''job'', ''hls-vi'']) ''lp-prod-output'' False scratch_world =
   (Inr (),
    \<lparr>cwd = [],
       nodes = [([''var'', ''scratch'', ''job'', ''hls-vi'', ''HLS-VI.L30.T58UFF.2025105T234951.v2.0.json''],
                 File ''manifest''),
                ([''var''], Dir), ([''var'', ''scratch''], Dir), ([''var'', ''scratch'', ''job''], Dir),
                ([''var'', ''scratch'', ''job'', ''hls''], Dir),
                ([''var'', ''scratch'', ''job'', ''hls-vi''], Dir),
                ([''var'', ''scratch'', ''job'', ''hls-vi'', ''NDVI.tif''], File ''ndvi''),
                ([''var'', ''scratch'', ''job'', ''hls-vi'', ''EVI.tif''], File ''evi'')],
       trace = [Put_object ''lp-prod-output'' ''L30_VI/data/2025105/HLS-VI.L30.T58UFF.2025105T234951.v2.0/NDVI.tif'' ''ndvi'' ''private'',
                Put_object ''lp-prod-output'' ''L30_VI/data/2025105/HLS-VI.L30.T58UFF.2025105T234951.v2.0/EVI.tif'' ''evi'' ''private'',
                Manifest [''/var/scratch/job/hls-vi'',
                          ''/var/scratch/job/hls-vi/HLS-VI.L30.T58UFF.2025105T234951.v2.0.json'',
                          ''s3://lp-prod-output/L30_VI/data/2025105/HLS-VI.L30.T58UFF.2025105T234951.v2.0'',
                          ''HLSL30_VI'', ''HLS-VI.L30.T58UFF.2025105T234951.v2.0'', ''job-1'', ''false''],
                Put_object ''lp-prod-output'' ''L30_VI/data/2025105/HLS-VI.L30.T58UFF.2025105T234951.v2.0/HLS-VI.L30.T58UFF.2025105T234951.v2.0.json''
                  ''manifest'' ''private'']\<rparr>)"
    by (simp add: upload_outputs_def output_key_prefix_def from_string_L30_example
        startswith_def iterdir_def absolute_def scratch_world_def is_dir_at_def exists_at_def
        put_file_def read_file_def s3_serving_def log_event_def path_name_def
        create_manifest_def truediv_def parse_path_def path_str_def sample_manifest_def
        write_file_def Let_def)
  have quiet: "\<forall>args v. trace (snd (sample_manifest args v)) = trace v"
    by (simp add: sample_manifest_quiet)
  have listing: "iterdir scratch_world (Path True [''var'', ''scratch'', ''job'', ''hls-vi'']) =
     Inr [Path True [''var'', ''scratch'', ''job'', ''hls-vi'', ''NDVI.tif''],
          Path True [''var'', ''scratch'', ''job'', ''hls-vi'', ''EVI.tif'']]"
    by (simp add: iterdir_def absolute_def scratch_world_def is_dir_at_def exists_at_def)
  from upload_outputs_calls [OF run quiet] listing run quiet show ?thesis
    by auto
qed

section \<open>Facts about the prepare stage\<close>

lemma basename_after_slash:
  "CHR ''/'' \<notin> set name \<Longrightarrow> basename (pre @ CHR ''/'' # name) = name"
proof (induction pre)
  case Nil
  have "rfind name CHR ''/'' = -1" using Nil rfind_none [of name "CHR ''/''"] by simp
  then show ?case by (simp add: basename_Cons)
next
  case (Cons x pre)
  have "CHR ''/'' \<in> set (pre @ CHR ''/'' # name)" by simp
  then have "rfind (pre @ CHR ''/'' # name) CHR ''/'' \<noteq> -1"
    using rfind_none [of "pre @ CHR ''/'' # name" "CHR ''/''"] by blast
  with rfind_bounds [of "pre @ CHR ''/'' # name" "CHR ''/''"]
  have "0 \<le> rfind (pre @ CHR ''/'' # name) CHR ''/''" by arith
  with Cons show ?case by (simp add: basename_Cons)
qed

lemma strip_metadata_urls_trace:
  "strip_metadata_urls xt p w = (Inr u, w') \<Longrightarrow> trace w' = trace w @ [Sanitize p]"
proof -
  assume "strip_metadata_urls xt p w = (Inr u, w')"
  then obtain body where "write_file (log_event (Sanitize p) w) p body = (Inr u, w')"
    by (auto simp: strip_metadata_urls_def split: sum.splits)
  then have "w' = snd (write_file (log_event (Sanitize p) w) p body)" by simp
  then show ?thesis by (simp add: write_file_trace)
qed

lemma download_files_success_trace:
  assumes "download_files (make_s3_downloader s3) started srcs dst_dir w = (Inr r, w')"
  shows "trace w' = trace w @ map (\<lambda>(src, dst). Fetch src dst) (missing_files srcs dst_dir w)"
proof -
  from assms obtain u where
    "executor_map (make_s3_downloader s3) started (missing_files srcs dst_dir w) w = (Inr u, w')"
    by (auto simp: download_files_def Let_def split: prod.splits sum.splits)
  then show ?thesis
    by (rule executor_map_success_trace [rotated]) (rule s3_downloader_trace)
qed

lemma granule_sources_length: "length (granule_sources s) = 9"
  by (cases "startswith s ''HLS.L30''") (simp_all add: granule_sources_L30 granule_sources_S30)



section \<open>The prepare stage on the sample scratch area\<close>

lemma scratch_sources:
  "granule_sources ''HLS.L30.T58UFF.2025105T234951.v2.0'' =
     [(''lp-prod-public'', ''HLSL30.020/HLS.L30.T58UFF.2025105T234951.v2.0/HLS.L30.T58UFF.2025105T234951.v2.0.jpg''),
      (''lp-prod-protected'', ''HLSL30.020/HLS.L30.T58UFF.2025105T234951.v2.0/HLS.L30.T58UFF.2025105T234951.v2.0.B02.tif''),
      (''lp-prod-protected'', ''HLSL30.020/HLS.L30.T58UFF.2025105T234951.v2.0/HLS.L30.T58UFF.2025105T234951.v2.0.B03.tif''),
      (''lp-prod-protected'', ''HLSL30.020/HLS.L30.T58UFF.2025105T234951.v2.0/HLS.L30.T58UFF.2025105T234951.v2.0.B04.tif''),
      (''lp-prod-protected'', ''HLSL30.020/HLS.L30.T58UFF.2025105T234951.v2.0/HLS.L30.T58UFF.2025105T234951.v2.0.B05.tif''),
      (''lp-prod-protected'', ''HLSL30.020/HLS.L30.T58UFF.2025105T234951.v2.0/HLS.L30.T58UFF.2025105T234951.v2.0.B06.tif''),
      (''lp-prod-protected'', ''HLSL30.020/HLS.L30.T58UFF.2025105T234951.v2.0/HLS.L30.T58UFF.2025105T234951.v2.0.B07.tif''),
      (''lp-prod-protected'', ''HLSL30.020/HLS.L30.T58UFF.2025105T234951.v2.0/HLS.L30.T58UFF.2025105T234951.v2.0.Fmask.tif''),
      (''lp-prod-protected'', ''HLSL30.020/HLS.L30.T58UFF.2025105T234951.v2.0/HLS.L30.T58UFF.2025105T234951.v2.0.cmr.xml'')]"
  by (simp add: granule_sources_L30 startswith_def)

lemma scratch_missing:
  "missing_files
     [(''lp-prod-public'', ''HLSL30.020/HLS.L30.T58UFF.2025105T234951.v2.0/HLS.L30.T58UFF.2025105T234951.v2.0.jpg''),
      (''lp-prod-protected'', ''HLSL30.020/HLS.L30.T58UFF.2025105T234951.v2.0/HLS.L30.T58UFF.2025105T234951.v2.0.B02.tif''),
      (''lp-prod-protected'', ''HLSL30.020/HLS.L30.T58UFF.2025105T234951.v2.0/HLS.L30.T58UFF.2025105T234951.v2.0.B03.tif''),
      (''lp-prod-protected'', ''HLSL30.020/HLS.L30.T58UFF.2025105T234951.v2.0/HLS.L30.T58UFF.2025105T234951.v2.0.B04.tif''),
      (''lp-prod-protected'', ''HLSL30.020/HLS.L30.T58UFF.2025105T234951.v2.0/HLS.L30.T58UFF.2025105T234951.v2.0.B05.tif''),
      (''lp-prod-protected'', ''HLSL30.020/HLS.L30.T58UFF.2025105T234951.v2.0/HLS.L30.T58UFF.2025105T234951.v2.0.B06.tif''),
      (''lp-prod-protected'', ''HLSL30.020/HLS.L30.T58UFF.2025105T234951.v2.0/HLS.L30.T58UFF.2025105T234951.v2.0.B07.tif''),
      (''lp-prod-protected'', ''HLSL30.020/HLS.L30.T58UFF.2025105T234951.v2.0/HLS.L30.T58UFF.2025105T234951.v2.0.Fmask.tif''),
      (''lp-prod-protected'', ''HLSL30.020/HLS.L30.T58UFF.2025105T234951.v2.0/HLS.L30.T58UFF.2025105T234951.v2.0.cmr.xml'')]
     (Path True [''var'', ''scratch'', ''job'', ''hls'']) scratch_world =
     [((''lp-prod-public'', ''HLSL30.020/HLS.L30.T58UFF.2025105T234951.v2.0/HLS.L30.T58UFF.2025105T234951.v2.0.jpg''),
       Path True [''var'', ''scratch'', ''job'', ''hls'', ''HLS.L30.T58UFF.2025105T234951.v2.0.jpg'']),
      ((''lp-prod-protected'', ''HLSL30.020/HLS.L30.T58UFF.2025105T234951.v2.0/HLS.L30.T58UFF.2025105T234951.v2.0.B02.tif''),
       Path True [''var'', ''scratch'', ''job'', ''hls'', ''HLS.L30.T58UFF.2025105T234951.v2.0.B02.tif'']),
      ((''lp-prod-protected'', ''HLSL30.020/HLS.L30.T58UFF.2025105T234951.v2.0/HLS.L30.T58UFF.2025105T234951.v2.0.B03.tif''),
       Path True [''var'', ''scratch'', ''job'', ''hls'', ''HLS.L30.T58UFF.2025105T234951.v2.0.B03.tif'']),
      ((''lp-prod-protected'', ''HLSL30.020/HLS.L30.T58UFF.2025105T234951.v2.0/HLS.L30.T58UFF.2025105T234951.v2.0.B04.tif''),
       Path True [''var'', ''scratch'', ''job'', ''hls'', ''HLS.L30.T58UFF.2025105T234951.v2.0.B04.tif'']),
      ((''lp-prod-protected'', ''HLSL30.020/HLS.L30.T58UFF.2025105T234951.v2.0/HLS.L30.T58UFF.2025105T234951.v2.0.B05.tif''),
       Path True [''var'', ''scratch'', ''job'', ''hls'', ''HLS.L30.T58UFF.2025105T234951.v2.0.B05.tif'']),
      ((''lp-prod-protected'', ''HLSL30.020/HLS.L30.T58UFF.2025105T234951.v2.0/HLS.L30.T58UFF.2025105T234951.v2.0.B06.tif''),
       Path True [''var'', ''scratch'', ''job'', ''hls'', ''HLS.L30.T58UFF.2025105T234951.v2.0.B06.tif'']),
      ((''lp-prod-protected'', ''HLSL30.020/HLS.L30.T58UFF.2025105T234951.v2.0/HLS.L30.T58UFF.2025105T234951.v2.0.B07.tif''),
       Path True [''var'', ''scratch'', ''job'', ''hls'', ''HLS.L30.T58UFF.2025105T234951.v2.0.B07.tif'']),
      ((''lp-prod-protected'', ''HLSL30.020/HLS.L30.T58UFF.2025105T234951.v2.0/HLS.L30.T58UFF.2025105T234951.v2.0.Fmask.tif''),
       Path True [''var'', ''scratch'', ''job'', ''hls'', ''HLS.L30.T58UFF.2025105T234951.v2.0.Fmask.tif'']),
      ((''lp-prod-protected'', ''HLSL30.020/HLS.L30.T58UFF.2025105T234951.v2.0/HLS.L30.T58UFF.2025105T234951.v2.0.cmr.xml''),
       Path True [''var'', ''scratch'', ''job'', ''hls'', ''HLS.L30.T58UFF.2025105T234951.v2.0.cmr.xml''])]"
  by (simp add: missing_files_def basename_def truediv_def parse_path_def
      startswith_def absolute_def exists_def scratch_world_def is_dir_at_def exists_at_def)

lemma scratch_fetch:
  "executor_map (make_s3_downloader (s3_serving (\<lambda>key. True))) 0
     [((''lp-prod-public'', ''HLSL30.020/HLS.L30.T58UFF.2025105T234951.v2.0/HLS.L30.T58UFF.2025105T234951.v2.0.jpg''),
       Path True [''var'', ''scratch'', ''job'', ''hls'', ''HLS.L30.T58UFF.2025105T234951.v2.0.jpg'']),
      ((''lp-prod-protected'', ''HLSL30.020/HLS.L30.T58UFF.2025105T234951.v2.0/HLS.L30.T58UFF.2025105T234951.v2.0.B02.tif''),
       Path True [''var'', ''scratch'', ''job'', ''hls'', ''HLS.L30.T58UFF.2025105T234951.v2.0.B02.tif'']),
      ((''lp-prod-protected'', ''HLSL30.020/HLS.L30.T58UFF.2025105T234951.v2.0/HLS.L30.T58UFF.2025105T234951.v2.0.B03.tif''),
       Path True [''var'', ''scratch'', ''job'', ''hls'', ''HLS.L30.T58UFF.2025105T234951.v2.0.B03.tif'']),
      ((''lp-prod-protected'', ''HLSL30.020/HLS.L30.T58UFF.2025105T234951.v2.0/HLS.L30.T58UFF.2025105T234951.v2.0.B04.tif''),
       Path True [''var'', ''scratch'', ''job'', ''hls'', ''HLS.L30.T58UFF.2025105T234951.v2.0.B04.tif'']),
      ((''lp-prod-protected'', ''HLSL30.020/HLS.L30.T58UFF.2025105T234951.v2.0/HLS.L30.T58UFF.2025105T234951.v2.0.B05.tif''),
       Path True [''var'', ''scratch'', ''job'', ''hls'', ''HLS.L30.T58UFF.2025105T234951.v2.0.B05.tif'']),
      ((''lp-prod-protected'', ''HLSL30.020/HLS.L30.T58UFF.2025105T234951.v2.0/HLS.L30.T58UFF.2025105T234951.v2.0.B06.tif''),
       Path True [''var'', ''scratch'', ''job'', ''hls'', ''HLS.L30.T58UFF.2025105T234951.v2.0.B06.tif'']),
      ((''lp-prod-protected'', ''HLSL30.020/HLS.L30.T58UFF.2025105T234951.v2.0/HLS.L30.T58UFF.2025105T234951.v2.0.B07.tif''),
       Path True [''var'', ''scratch'', ''job'', ''hls'', ''HLS.L30.T58UFF.2025105T234951.v2.0.B07.tif'']),
      ((''lp-prod-protected'', ''HLSL30.020/HLS.L30.T58UFF.2025105T234951.v2.0/HLS.L30.T58UFF.2025105T234951.v2.0.Fmask.tif''),
       Path True [''var'', ''scratch'', ''job'', ''hls'', ''HLS.L30.T58UFF.2025105T234951.v2.0.Fmask.tif'']),
      ((''lp-prod-protected'', ''HLSL30.020/HLS.L30.T58UFF.2025105T234951.v2.0/HLS.L30.T58UFF.2025105T234951.v2.0.cmr.xml''),
       Path True [''var'', ''scratch'', ''job'', ''hls'', ''HLS.L30.T58UFF.2025105T234951.v2.0.cmr.xml''])]
     scratch_world =
   (Inr (),
    \<lparr>cwd = [],
       nodes = [([''var'', ''scratch'', ''job'', ''hls'', ''HLS.L30.T58UFF.2025105T234951.v2.0.cmr.xml''], File ''data''),
                ([''var'', ''scratch'', ''job'', ''hls'', ''HLS.L30.T58UFF.2025105T234951.v2.0.Fmask.tif''], File ''data''),
                ([''var'', ''scratch'', ''job'', ''hls'', ''HLS.L30.T58UFF.2025105T234951.v2.0.B07.tif''], File ''data''),
                ([''var'', ''scratch'', ''job'', ''hls'', ''HLS.L30.T58UFF.2025105T234951.v2.0.B06.tif''], File ''data''),
                ([''var'', ''scratch'', ''job'', ''hls'', ''HLS.L30.T58UFF.2025105T234951.v2.0.B05.tif''], File ''data''),
                ([''var'', ''scratch'', ''job'', ''hls'', ''HLS.L30.T58UFF.2025105T234951.v2.0.B04.tif''], File ''data''),
                ([''var'', ''scratch'', ''job'', ''hls'', ''HLS.L30.T58UFF.2025105T234951.v2.0.B03.tif''], File ''data''),
                ([''var'', ''scratch'', ''job'', ''hls'', ''HLS.L30.T58UFF.2025105T234951.v2.0.B02.tif''], File ''data''),
                ([''var'', ''scratch'', ''job'', ''hls'', ''HLS.L30.T58UFF.2025105T234951.v2.0.jpg''], File ''data''),
                ([''var''], Dir),
                ([''var'', ''scratch''], Dir),
                ([''var'', ''scratch'', ''job''], Dir),
                ([''var'', ''scratch'', ''job'', ''hls''], Dir),
                ([''var'', ''scratch'', ''job'', ''hls-vi''], Dir),
                ([''var'', ''scratch'', ''job'', ''hls-vi'', ''NDVI.tif''], File ''ndvi''),
                ([''var'', ''scratch'', ''job'', ''hls-vi'', ''EVI.tif''], File ''evi'')],
       trace = [Fetch (''lp-prod-public'', ''HLSL30.020/HLS.L30.T58UFF.2025105T234951.v2.0/HLS.L30.T58UFF.2025105T234951.v2.0.jpg'')
           (Path True [''var'', ''scratch'', ''job'', ''hls'', ''HLS.L30.T58UFF.2025105T234951.v2.0.jpg'']),
          Fetch (''lp-prod-protected'', ''HLSL30.020/HLS.L30.T58UFF.2025105T234951.v2.0/HLS.L30.T58UFF.2025105T234951.v2.0.B02.tif'')
           (Path True [''var'', ''scratch'', ''job'', ''hls'', ''HLS.L30.T58UFF.2025105T234951.v2.0.B02.tif'']),
          Fetch (''lp-prod-protected'', ''HLSL30.020/HLS.L30.T58UFF.2025105T234951.v2.0/HLS.L30.T58UFF.2025105T234951.v2.0.B03.tif'')
           (Path True [''var'', ''scratch'', ''job'', ''hls'', ''HLS.L30.T58UFF.2025105T234951.v2.0.B03.tif'']),
          Fetch (''lp-prod-protected'', ''HLSL30.020/HLS.L30.T58UFF.2025105T234951.v2.0/HLS.L30.T58UFF.2025105T234951.v2.0.B04.tif'')
           (Path True [''var'', ''scratch'', ''job'', ''hls'', ''HLS.L30.T58UFF.2025105T234951.v2.0.B04.tif'']),
          Fetch (''lp-prod-protected'', ''HLSL30.020/HLS.L30.T58UFF.2025105T234951.v2.0/HLS.L30.T58UFF.2025105T234951.v2.0.B05.tif'')
           (Path True [''var'', ''scratch'', ''job'', ''hls'', ''HLS.L30.T58UFF.2025105T234951.v2.0.B05.tif'']),
          Fetch (''lp-prod-protected'', ''HLSL30.020/HLS.L30.T58UFF.2025105T234951.v2.0/HLS.L30.T58UFF.2025105T234951.v2.0.B06.tif'')
           (Path True [''var'', ''scratch'', ''job'', ''hls'', ''HLS.L30.T58UFF.2025105T234951.v2.0.B06.tif'']),
          Fetch (''lp-prod-protected'', ''HLSL30.020/HLS.L30.T58UFF.2025105T234951.v2.0/HLS.L30.T58UFF.2025105T234951.v2.0.B07.tif'')
           (Path True [''var'', ''scratch'', ''job'', ''hls'', ''HLS.L30.T58UFF.2025105T234951.v2.0.B07.tif'']),
          Fetch (''lp-prod-protected'', ''HLSL30.020/HLS.L30.T58UFF.2025105T234951.v2.0/HLS.L30.T58UFF.2025105T234951.v2.0.Fmask.tif'')
           (Path True [''var'', ''scratch'', ''job'', ''hls'', ''HLS.L30.T58UFF.2025105T234951.v2.0.Fmask.tif'']),
          Fetch (''lp-prod-protected'', ''HLSL30.020/HLS.L30.T58UFF.2025105T234951.v2.0/HLS.L30.T58UFF.2025105T234951.v2.0.cmr.xml'')
           (Path True [''var'', ''scratch'', ''job'', ''hls'', ''HLS.L30.T58UFF.2025105T234951.v2.0.cmr.xml''])]\<rparr>)"
  by (simp add: scratch_world_def is_dir_at_def exists_at_def
      log_event_def Let_def make_s3_downloader_def s3_serving_def write_file_def absolute_def)

lemma scratch_sanitize:
  "strip_metadata_urls sample_xml_tools
     (truediv (Path True [''var'', ''scratch'', ''job'', ''hls'']) (''HLS.L30.T58UFF.2025105T234951.v2.0'' @ ''.cmr.xml''))
    \<lparr>cwd = [],
       nodes = [([''var'', ''scratch'', ''job'', ''hls'', ''HLS.L30.T58UFF.2025105T234951.v2.0.cmr.xml''], File ''data''),
                ([''var'', ''scratch'', ''job'', ''hls'', ''HLS.L30.T58UFF.2025105T234951.v2.0.Fmask.tif''], File ''data''),
                ([''var'', ''scratch'', ''job'', ''hls'', ''HLS.L30.T58UFF.2025105T234951.v2.0.B07.tif''], File ''data''),
                ([''var'', ''scratch'', ''job'', ''hls'', ''HLS.L30.T58UFF.2025105T234951.v2.0.B06.tif''], File ''data''),
                ([''var'', ''scratch'', ''job'', ''hls'', ''HLS.L30.T58UFF.2025105T234951.v2.0.B05.tif''], File ''data''),
                ([''var'', ''scratch'', ''job'', ''hls'', ''HLS.L30.T58UFF.2025105T234951.v2.0.B04.tif''], File ''data''),
                ([''var'', ''scratch'', ''job'', ''hls'', ''HLS.L30.T58UFF.2025105T234951.v2.0.B03.tif''], File ''data''),
                ([''var'', ''scratch'', ''job'', ''hls'', ''HLS.L30.T58UFF.2025105T234951.v2.0.B02.tif''], File ''data''),
                ([''var'', ''scratch'', ''job'', ''hls'', ''HLS.L30.T58UFF.2025105T234951.v2.0.jpg''], File ''data''),
                ([''var''], Dir),
                ([''var'', ''scratch''], Dir),
                ([''var'', ''scratch'', ''job''], Dir),
                ([''var'', ''scratch'', ''job'', ''hls''], Dir),
                ([''var'', ''scratch'', ''job'', ''hls-vi''], Dir),
                ([''var'', ''scratch'', ''job'', ''hls-vi'', ''NDVI.tif''], File ''ndvi''),
                ([''var'', ''scratch'', ''job'', ''hls-vi'', ''EVI.tif''], File ''evi'')],
       trace = [Fetch (''lp-prod-public'', ''HLSL30.020/HLS.L30.T58UFF.2025105T234951.v2.0/HLS.L30.T58UFF.2025105T234951.v2.0.jpg'')
           (Path True [''var'', ''scratch'', ''job'', ''hls'', ''HLS.L30.T58UFF.2025105T234951.v2.0.jpg'']),
          Fetch (''lp-prod-protected'', ''HLSL30.020/HLS.L30.T58UFF.2025105T234951.v2.0/HLS.L30.T58UFF.2025105T234951.v2.0.B02.tif'')
           (Path True [''var'', ''scratch'', ''job'', ''hls'', ''HLS.L30.T58UFF.2025105T234951.v2.0.B02.tif'']),
          Fetch (''lp-prod-protected'', ''HLSL30.020/HLS.L30.T58UFF.2025105T234951.v2.0/HLS.L30.T58UFF.2025105T234951.v2.0.B03.tif'')
           (Path True [''var'', ''scratch'', ''job'', ''hls'', ''HLS.L30.T58UFF.2025105T234951.v2.0.B03.tif'']),
          Fetch (''lp-prod-protected'', ''HLSL30.020/HLS.L30.T58UFF.2025105T234951.v2.0/HLS.L30.T58UFF.2025105T234951.v2.0.B04.tif'')
           (Path True [''var'', ''scratch'', ''job'', ''hls'', ''HLS.L30.T58UFF.2025105T234951.v2.0.B04.tif'']),
          Fetch (''lp-prod-protected'', ''HLSL30.020/HLS.L30.T58UFF.2025105T234951.v2.0/HLS.L30.T58UFF.2025105T234951.v2.0.B05.tif'')
           (Path True [''var'', ''scratch'', ''job'', ''hls'', ''HLS.L30.T58UFF.2025105T234951.v2.0.B05.tif'']),
          Fetch (''lp-prod-protected'', ''HLSL30.020/HLS.L30.T58UFF.2025105T234951.v2.0/HLS.L30.T58UFF.2025105T234951.v2.0.B06.tif'')
           (Path True [''var'', ''scratch'', ''job'', ''hls'', ''HLS.L30.T58UFF.2025105T234951.v2.0.B06.tif'']),
          Fetch (''lp-prod-protected'', ''HLSL30.020/HLS.L30.T58UFF.2025105T234951.v2.0/HLS.L30.T58UFF.2025105T234951.v2.0.B07.tif'')
           (Path True [''var'', ''scratch'', ''job'', ''hls'', ''HLS.L30.T58UFF.2025105T234951.v2.0.B07.tif'']),
          Fetch (''lp-prod-protected'', ''HLSL30.020/HLS.L30.T58UFF.2025105T234951.v2.0/HLS.L30.T58UFF.2025105T234951.v2.0.Fmask.tif'')
           (Path True [''var'', ''scratch'', ''job'', ''hls'', ''HLS.L30.T58UFF.2025105T234951.v2.0.Fmask.tif'']),
          Fetch (''lp-prod-protected'', ''HLSL30.020/HLS.L30.T58UFF.2025105T234951.v2.0/HLS.L30.T58UFF.2025105T234951.v2.0.cmr.xml'')
           (Path True [''var'', ''scratch'', ''job'', ''hls'', ''HLS.L30.T58UFF.2025105T234951.v2.0.cmr.xml''])]\<rparr> =
   (Inr (),
    \<lparr>cwd = [],
       nodes = [([''var'', ''scratch'', ''job'', ''hls'', ''HLS.L30.T58UFF.2025105T234951.v2.0.cmr.xml''], File ''<Granule><Checksum><Value>ab</Value></Checksum><Orbit></Orbit></Granule>''),
                ([''var'', ''scratch'', ''job'', ''hls'', ''HLS.L30.T58UFF.2025105T234951.v2.0.cmr.xml''], File ''data''),
                ([''var'', ''scratch'', ''job'', ''hls'', ''HLS.L30.T58UFF.2025105T234951.v2.0.Fmask.tif''], File ''data''),
                ([''var'', ''scratch'', ''job'', ''hls'', ''HLS.L30.T58UFF.2025105T234951.v2.0.B07.tif''], File ''data''),
                ([''var'', ''scratch'', ''job'', ''hls'', ''HLS.L30.T58UFF.2025105T234951.v2.0.B06.tif''], File ''data''),
                ([''var'', ''scratch'', ''job'', ''hls'', ''HLS.L30.T58UFF.2025105T234951.v2.0.B05.tif''], File ''data''),
                ([''var'', ''scratch'', ''job'', ''hls'', ''HLS.L30.T58UFF.2025105T234951.v2.0.B04.tif''], File ''data''),
                ([''var'', ''scratch'', ''job'', ''hls'', ''HLS.L30.T58UFF.2025105T234951.v2.0.B03.tif''], File ''data''),
                ([''var'', ''scratch'', ''job'', ''hls'', ''HLS.L30.T58UFF.2025105T234951.v2.0.B02.tif''], File ''data''),
                ([''var'', ''scratch'', ''job'', ''hls'', ''HLS.L30.T58UFF.2025105T234951.v2.0.jpg''], File ''data''),
                ([''var''], Dir),
                ([''var'', ''scratch''], Dir),
                ([''var'', ''scratch'', ''job''], Dir),
                ([''var'', ''scratch'', ''job'', ''hls''], Dir),
                ([''var'', ''scratch'', ''job'', ''hls-vi''], Dir),
                ([''var'', ''scratch'', ''job'', ''hls-vi'', ''NDVI.tif''], File ''ndvi''),
                ([''var'', ''scratch'', ''job'', ''hls-vi'', ''EVI.tif''], File ''evi'')],
       trace = [Fetch (''lp-prod-public'', ''HLSL30.020/HLS.L30.T58UFF.2025105T234951.v2.0/HLS.L30.T58UFF.2025105T234951.v2.0.jpg'')
           (Path True [''var'', ''scratch'', ''job'', ''hls'', ''HLS.L30.T58UFF.2025105T234951.v2.0.jpg'']),
          Fetch (''lp-prod-protected'', ''HLSL30.020/HLS.L30.T58UFF.2025105T234951.v2.0/HLS.L30.T58UFF.2025105T234951.v2.0.B02.tif'')
           (Path True [''var'', ''scratch'', ''job'', ''hls'', ''HLS.L30.T58UFF.2025105T234951.v2.0.B02.tif'']),
          Fetch (''lp-prod-protected'', ''HLSL30.020/HLS.L30.T58UFF.2025105T234951.v2.0/HLS.L30.T58UFF.2025105T234951.v2.0.B03.tif'')
           (Path True [''var'', ''scratch'', ''job'', ''hls'', ''HLS.L30.T58UFF.2025105T234951.v2.0.B03.tif'']),
          Fetch (''lp-prod-protected'', ''HLSL30.020/HLS.L30.T58UFF.2025105T234951.v2.0/HLS.L30.T58UFF.2025105T234951.v2.0.B04.tif'')
           (Path True [''var'', ''scratch'', ''job'', ''hls'', ''HLS.L30.T58UFF.2025105T234951.v2.0.B04.tif'']),
          Fetch (''lp-prod-protected'', ''HLSL30.020/HLS.L30.T58UFF.2025105T234951.v2.0/HLS.L30.T58UFF.2025105T234951.v2.0.B05.tif'')
           (Path True [''var'', ''scratch'', ''job'', ''hls'', ''HLS.L30.T58UFF.2025105T234951.v2.0.B05.tif'']),
          Fetch (''lp-prod-protected'', ''HLSL30.020/HLS.L30.T58UFF.2025105T234951.v2.0/HLS.L30.T58UFF.2025105T234951.v2.0.B06.tif'')
           (Path True [''var'', ''scratch'', ''job'', ''hls'', ''HLS.L30.T58UFF.2025105T234951.v2.0.B06.tif'']),
          Fetch (''lp-prod-protected'', ''HLSL30.020/HLS.L30.T58UFF.2025105T234951.v2.0/HLS.L30.T58UFF.2025105T234951.v2.0.B07.tif'')
           (Path True [''var'', ''scratch'', ''job'', ''hls'', ''HLS.L30.T58UFF.2025105T234951.v2.0.B07.tif'']),
          Fetch (''lp-prod-protected'', ''HLSL30.020/HLS.L30.T58UFF.2025105T234951.v2.0/HLS.L30.T58UFF.2025105T234951.v2.0.Fmask.tif'')
           (Path True [''var'', ''scratch'', ''job'', ''hls'', ''HLS.L30.T58UFF.2025105T234951.v2.0.Fmask.tif'']),
          Fetch (''lp-prod-protected'', ''HLSL30.020/HLS.L30.T58UFF.2025105T234951.v2.0/HLS.L30.T58UFF.2025105T234951.v2.0.cmr.xml'')
           (Path True [''var'', ''scratch'', ''job'', ''hls'', ''HLS.L30.T58UFF.2025105T234951.v2.0.cmr.xml'']),
          Sanitize (Path True [''var'', ''scratch'', ''job'', ''hls'', ''HLS.L30.T58UFF.2025105T234951.v2.0.cmr.xml''])]\<rparr>)"
  by (simp add: is_dir_at_def exists_at_def truediv_def parse_path_def startswith_def
      log_event_def Let_def write_file_def absolute_def
      strip_metadata_urls_def read_file_def sample_xml_tools_def sample_doc_def c14n_attr_def)

lemma scratch_prepare:
  "prepare_inputs (s3_serving (\<lambda>key. True)) sample_xml_tools 0 ''HLS.L30.T58UFF.2025105T234951.v2.0''
     (Path True [''var'', ''scratch'', ''job'', ''hls'']) scratch_world =
   (Inr (),
    \<lparr>cwd = [],
       nodes = [([''var'', ''scratch'', ''job'', ''hls'', ''HLS.L30.T58UFF.2025105T234951.v2.0.cmr.xml''], File ''<Granule><Checksum><Value>ab</Value></Checksum><Orbit></Orbit></Granule>''),
                ([''var'', ''scratch'', ''job'', ''hls'', ''HLS.L30.T58UFF.2025105T234951.v2.0.cmr.xml''], File ''data''),
                ([''var'', ''scratch'', ''job'', ''hls'', ''HLS.L30.T58UFF.2025105T234951.v2.0.Fmask.tif''], File ''data''),
                ([''var'', ''scratch'', ''job'', ''hls'', ''HLS.L30.T58UFF.2025105T234951.v2.0.B07.tif''], File ''data''),
                ([''var'', ''scratch'', ''job'', ''hls'', ''HLS.L30.T58UFF.2025105T234951.v2.0.B06.tif''], File ''data''),
                ([''var'', ''scratch'', ''job'', ''hls'', ''HLS.L30.T58UFF.2025105T234951.v2.0.B05.tif''], File ''data''),
                ([''var'', ''scratch'', ''job'', ''hls'', ''HLS.L30.T58UFF.2025105T234951.v2.0.B04.tif''], File ''data''),
                ([''var'', ''scratch'', ''job'', ''hls'', ''HLS.L30.T58UFF.2025105T234951.v2.0.B03.tif''], File ''data''),
                ([''var'', ''scratch'', ''job'', ''hls'', ''HLS.L30.T58UFF.2025105T234951.v2.0.B02.tif''], File ''data''),
                ([''var'', ''scratch'', ''job'', ''hls'', ''HLS.L30.T58UFF.2025105T234951.v2.0.jpg''], File ''data''),
                ([''var''], Dir),
                ([''var'', ''scratch''], Dir),
                ([''var'', ''scratch'', ''job''], Dir),
                ([''var'', ''scratch'', ''job'', ''hls''], Dir),
                ([''var'', ''scratch'', ''job'', ''hls-vi''], Dir),
                ([''var'', ''scratch'', ''job'', ''hls-vi'', ''NDVI.tif''], File ''ndvi''),
                ([''var'', ''scratch'', ''job'', ''hls-vi'', ''EVI.tif''], File ''evi'')],
       trace = [Fetch (''lp-prod-public'', ''HLSL30.020/HLS.L30.T58UFF.2025105T234951.v2.0/HLS.L30.T58UFF.2025105T234951.v2.0.jpg'')
           (Path True [''var'', ''scratch'', ''job'', ''hls'', ''HLS.L30.T58UFF.2025105T234951.v2.0.jpg'']),
          Fetch (''lp-prod-protected'', ''HLSL30.020/HLS.L30.T58UFF.2025105T234951.v2.0/HLS.L30.T58UFF.2025105T234951.v2.0.B02.tif'')
           (Path True [''var'', ''scratch'', ''job'', ''hls'', ''HLS.L30.T58UFF.2025105T234951.v2.0.B02.tif'']),
          Fetch (''lp-prod-protected'', ''HLSL30.020/HLS.L30.T58UFF.2025105T234951.v2.0/HLS.L30.T58UFF.2025105T234951.v2.0.B03.tif'')
           (Path True [''var'', ''scratch'', ''job'', ''hls'', ''HLS.L30.T58UFF.2025105T234951.v2.0.B03.tif'']),
          Fetch (''lp-prod-protected'', ''HLSL30.020/HLS.L30.T58UFF.2025105T234951.v2.0/HLS.L30.T58UFF.2025105T234951.v2.0.B04.tif'')
           (Path True [''var'', ''scratch'', ''job'', ''hls'', ''HLS.L30.T58UFF.2025105T234951.v2.0.B04.tif'']),
          Fetch (''lp-prod-protected'', ''HLSL30.020/HLS.L30.T58UFF.2025105T234951.v2.0/HLS.L30.T58UFF.2025105T234951.v2.0.B05.tif'')
           (Path True [''var'', ''scratch'', ''job'', ''hls'', ''HLS.L30.T58UFF.2025105T234951.v2.0.B05.tif'']),
          Fetch (''lp-prod-protected'', ''HLSL30.020/HLS.L30.T58UFF.2025105T234951.v2.0/HLS.L30.T58UFF.2025105T234951.v2.0.B06.tif'')
           (Path True [''var'', ''scratch'', ''job'', ''hls'', ''HLS.L30.T58UFF.2025105T234951.v2.0.B06.tif'']),
          Fetch (''lp-prod-protected'', ''HLSL30.020/HLS.L30.T58UFF.2025105T234951.v2.0/HLS.L30.T58UFF.2025105T234951.v2.0.B07.tif'')
           (Path True [''var'', ''scratch'', ''job'', ''hls'', ''HLS.L30.T58UFF.2025105T234951.v2.0.B07.tif'']),
          Fetch (''lp-prod-protected'', ''HLSL30.020/HLS.L30.T58UFF.2025105T234951.v2.0/HLS.L30.T58UFF.2025105T234951.v2.0.Fmask.tif'')
           (Path True [''var'', ''scratch'', ''job'', ''hls'', ''HLS.L30.T58UFF.2025105T234951.v2.0.Fmask.tif'']),
          Fetch (''lp-prod-protected'', ''HLSL30.020/HLS.L30.T58UFF.2025105T234951.v2.0/HLS.L30.T58UFF.2025105T234951.v2.0.cmr.xml'')
           (Path True [''var'', ''scratch'', ''job'', ''hls'', ''HLS.L30.T58UFF.2025105T234951.v2.0.cmr.xml'']),
          Sanitize (Path True [''var'', ''scratch'', ''job'', ''hls'', ''HLS.L30.T58UFF.2025105T234951.v2.0.cmr.xml''])]\<rparr>)"
  by (simp only: prepare_inputs_def download_files_def scratch_sources scratch_missing
      scratch_fetch scratch_sanitize Let_def prod.case sum.case)

section \<open>The prepare stage: the claims\<close>

text \<open>
  C8, as stated, fails: with the input directory empty, the prepare stage fetches all nine
  sources of the granule, not eight.
\<close>

theorem prepare_inputs_nine_fetches:
  "iterdir scratch_world (Path True [''var'', ''scratch'', ''job'', ''hls'']) = Inr [] \<and>
   length (filter is_fetch
             (trace (snd (prepare_inputs sample_s3 sample_xml_tools 0
                            ''HLS.L30.T58UFF.2025105T234951.v2.0''
                            (Path True [''var'', ''scratch'', ''job'', ''hls'']) scratch_world)))) = 9 \<and>
   length (filter is_fetch
             (trace (snd (prepare_inputs sample_s3 sample_xml_tools 0
                            ''HLS.L30.T58UFF.2025105T234951.v2.0''
                            (Path True [''var'', ''scratch'', ''job'', ''hls'']) scratch_world)))) \<noteq> 8"
proof -
  have "iterdir scratch_world (Path True [''var'', ''scratch'', ''job'', ''hls'']) = Inr []"
    by (simp add: iterdir_def absolute_def scratch_world_def is_dir_at_def exists_at_def)
  then show ?thesis by (simp add: sample_s3_def scratch_prepare)
qed

text \<open>
  C8, amended. For the granule \<open>HLS.L30.T58UFF.2025105T234951.v2.0\<close> and a destination
  directory in which none of the nine local files exists, a prepare stage that completes has
  performed exactly nine fetches, one per resolved source and in their order, and has then
  sanitized the single file \<open>dst_dir / HLS.L30.T58UFF.2025105T234951.v2.0.cmr.xml\<close>, which
  is the local file of the last source.
\<close>

theorem prepare_inputs_fetches:
  assumes "\<forall>src \<in> set (granule_sources ''HLS.L30.T58UFF.2025105T234951.v2.0'').
             \<not> exists w (absolute w (truediv dst_dir (basename (snd src))))"
    and "prepare_inputs s3 xt started ''HLS.L30.T58UFF.2025105T234951.v2.0'' dst_dir w = (Inr u, w')"
  shows "trace w' = trace w @
           map (\<lambda>src. Fetch src (absolute w (truediv dst_dir (basename (snd src)))))
               (granule_sources ''HLS.L30.T58UFF.2025105T234951.v2.0'') @
           [Sanitize (truediv dst_dir (''HLS.L30.T58UFF.2025105T234951.v2.0'' @ ''.cmr.xml''))] \<and>
         length (granule_sources ''HLS.L30.T58UFF.2025105T234951.v2.0'') = 9 \<and>
         basename (snd (last (granule_sources ''HLS.L30.T58UFF.2025105T234951.v2.0''))) = ''HLS.L30.T58UFF.2025105T234951.v2.0'' @ ''.cmr.xml''"
proof -
  let ?g = "''HLS.L30.T58UFF.2025105T234951.v2.0''"
  let ?lp = "\<lambda>src. absolute w (truediv dst_dir (basename (snd src)))"
  from assms(2) obtain r w1 where
    dl: "download_files (make_s3_downloader s3) started (granule_sources ?g) dst_dir w = (Inr r, w1)"
    and st: "strip_metadata_urls xt (truediv dst_dir (?g @ ''.cmr.xml'')) w1 = (Inr u, w')"
    by (auto simp: prepare_inputs_def Let_def split: prod.splits sum.splits)
  from assms(1) have "filter (\<lambda>src. \<not> exists w (?lp src)) (granule_sources ?g) = granule_sources ?g"
    by (simp add: filter_id_conv)
  then have "missing_files (granule_sources ?g) dst_dir w = map (\<lambda>src. (src, ?lp src)) (granule_sources ?g)"
    by (simp add: missing_files_eq)
  with download_files_success_trace [OF dl]
  have "trace w1 = trace w @ map (\<lambda>src. Fetch src (?lp src)) (granule_sources ?g)"
    by (simp add: comp_def)
  with strip_metadata_urls_trace [OF st]
  have "trace w' = trace w @ map (\<lambda>src. Fetch src (?lp src)) (granule_sources ?g) @
           [Sanitize (truediv dst_dir (?g @ ''.cmr.xml''))]"
    by simp
  moreover have "basename (snd (last (granule_sources ?g))) = ?g @ ''.cmr.xml''"
    using basename_after_slash [of "?g @ ''.cmr.xml''" "''HLSL30.020/'' @ ?g"]
    by (simp add: scratch_sources)
  ultimately show ?thesis by (simp add: granule_sources_length)
qed

theorem prepare_inputs_fetches_witness:
  "list_all (\<lambda>src. \<not> exists scratch_world
           (absolute scratch_world (truediv (Path True [''var'', ''scratch'', ''job'', ''hls'']) (basename (snd src)))))
      (granule_sources ''HLS.L30.T58UFF.2025105T234951.v2.0'') \<and>
   prepare_inputs (s3_serving (\<lambda>key. True)) sample_xml_tools 0 ''HLS.L30.T58UFF.2025105T234951.v2.0''
     (Path True [''var'', ''scratch'', ''job'', ''hls'']) scratch_world =
   (Inr (),
    \<lparr>cwd = [],
       nodes = [([''var'', ''scratch'', ''job'', ''hls'', ''HLS.L30.T58UFF.2025105T234951.v2.0.cmr.xml''], File ''<Granule><Checksum><Value>ab</Value></Checksum><Orbit></Orbit></Granule>''),
                ([''var'', ''scratch'', ''job'', ''hls'', ''HLS.L30.T58UFF.2025105T234951.v2.0.cmr.xml''], File ''data''),
                ([''var'', ''scratch'', ''job'', ''hls'', ''HLS.L30.T58UFF.2025105T234951.v2.0.Fmask.tif''], File ''data''),
                ([''var'', ''scratch'', ''job'', ''hls'', ''HLS.L30.T58UFF.2025105T234951.v2.0.B07.tif''], File ''data''),
                ([''var'', ''scratch'', ''job'', ''hls'', ''HLS.L30.T58UFF.2025105T234951.v2.0.B06.tif''], File ''data''),
                ([''var'', ''scratch'', ''job'', ''hls'', ''HLS.L30.T58UFF.2025105T234951.v2.0.B05.tif''], File ''data''),
                ([''var'', ''scratch'', ''job'', ''hls'', ''HLS.L30.T58UFF.2025105T234951.v2.0.B04.tif''], File ''data''),
                ([''var'', ''scratch'', ''job'', ''hls'', ''HLS.L30.T58UFF.2025105T234951.v2.0.B03.tif''], File ''data''),
                ([''var'', ''scratch'', ''job'', ''hls'', ''HLS.L30.T58UFF.2025105T234951.v2.0.B02.tif''], File ''data''),
                ([''var'', ''scratch'', ''job'', ''hls'', ''HLS.L30.T58UFF.2025105T234951.v2.0.jpg''], File ''data''),
                ([''var''], Dir),
                ([''var'', ''scratch''], Dir),
                ([''var'', ''scratch'', ''job''], Dir),
                ([''var'', ''scratch'', ''job'', ''hls''], Dir),
                ([''var'', ''scratch'', ''job'', ''hls-vi''], Dir),
                ([''var'', ''scratch'', ''job'', ''hls-vi'', ''NDVI.tif''], File ''ndvi''),
                ([''var'', ''scratch'', ''job'', ''hls-vi'', ''EVI.tif''], File ''evi'')],
       trace = [Fetch (''lp-prod-public'', ''HLSL30.020/HLS.L30.T58UFF.2025105T234951.v2.0/HLS.L30.T58UFF.2025105T234951.v2.0.jpg'')
           (Path True [''var'', ''scratch'', ''job'', ''hls'', ''HLS.L30.T58UFF.2025105T234951.v2.0.jpg'']),
          Fetch (''lp-prod-protected'', ''HLSL30.020/HLS.L30.T58UFF.2025105T234951.v2.0/HLS.L30.T58UFF.2025105T234951.v2.0.B02.tif'')
           (Path True [''var'', ''scratch'', ''job'', ''hls'', ''HLS.L30.T58UFF.2025105T234951.v2.0.B02.tif'']),
          Fetch (''lp-prod-protected'', ''HLSL30.020/HLS.L30.T58UFF.2025105T234951.v2.0/HLS.L30.T58UFF.2025105T234951.v2.0.B03.tif'')
           (Path True [''var'', ''scratch'', ''job'', ''hls'', ''HLS.L30.T58UFF.2025105T234951.v2.0.B03.tif'']),
          Fetch (''lp-prod-protected'', ''HLSL30.020/HLS.L30.T58UFF.2025105T234951.v2.0/HLS.L30.T58UFF.2025105T234951.v2.0.B04.tif'')
           (Path True [''var'', ''scratch'', ''job'', ''hls'', ''HLS.L30.T58UFF.2025105T234951.v2.0.B04.tif'']),
          Fetch (''lp-prod-protected'', ''HLSL30.020/HLS.L30.T58UFF.2025105T234951.v2.0/HLS.L30.T58UFF.2025105T234951.v2.0.B05.tif'')
           (Path True [''var'', ''scratch'', ''job'', ''hls'', ''HLS.L30.T58UFF.2025105T234951.v2.0.B05.tif'']),
          Fetch (''lp-prod-protected'', ''HLSL30.020/HLS.L30.T58UFF.2025105T234951.v2.0/HLS.L30.T58UFF.2025105T234951.v2.0.B06.tif'')
           (Path True [''var'', ''scratch'', ''job'', ''hls'', ''HLS.L30.T58UFF.2025105T234951.v2.0.B06.tif'']),
          Fetch (''lp-prod-protected'', ''HLSL30.020/HLS.L30.T58UFF.2025105T234951.v2.0/HLS.L30.T58UFF.2025105T234951.v2.0.B07.tif'')
           (Path True [''var'', ''scratch'', ''job'', ''hls'', ''HLS.L30.T58UFF.2025105T234951.v2.0.B07.tif'']),
          Fetch (''lp-prod-protected'', ''HLSL30.020/HLS.L30.T58UFF.2025105T234951.v2.0/HLS.L30.T58UFF.2025105T234951.v2.0.Fmask.tif'')
           (Path True [''var'', ''scratch'', ''job'', ''hls'', ''HLS.L30.T58UFF.2025105T234951.v2.0.Fmask.tif'']),
          Fetch (''lp-prod-protected'', ''HLSL30.020/HLS.L30.T58UFF.2025105T234951.v2.0/HLS.L30.T58UFF.2025105T234951.v2.0.cmr.xml'')
           (Path True [''var'', ''scratch'', ''job'', ''hls'', ''HLS.L30.T58UFF.2025105T234951.v2.0.cmr.xml'']),
          Sanitize (Path True [''var'', ''scratch'', ''job'', ''hls'', ''HLS.L30.T58UFF.2025105T234951.v2.0.cmr.xml''])]\<rparr>)"
proof -
  have empty: "\<forall>src \<in> set (granule_sources ''HLS.L30.T58UFF.2025105T234951.v2.0'').
      \<not> exists scratch_world
           (absolute scratch_world (truediv (Path True [''var'', ''scratch'', ''job'', ''hls'']) (basename (snd src))))"
  proof -
    have "map fst (missing_files (granule_sources ''HLS.L30.T58UFF.2025105T234951.v2.0'') (Path True [''var'', ''scratch'', ''job'', ''hls'']) scratch_world) =
          granule_sources ''HLS.L30.T58UFF.2025105T234951.v2.0''"
      by (simp add: scratch_sources scratch_missing)
    then have "filter (\<lambda>src. \<not> exists scratch_world
           (absolute scratch_world (truediv (Path True [''var'', ''scratch'', ''job'', ''hls'']) (basename (snd src)))))
         (granule_sources ''HLS.L30.T58UFF.2025105T234951.v2.0'') = granule_sources ''HLS.L30.T58UFF.2025105T234951.v2.0''"
      by (simp add: missing_files_eq comp_def)
    then show ?thesis by (simp add: filter_id_conv)
  qed
  from prepare_inputs_fetches [OF empty scratch_prepare] empty scratch_prepare
  show ?thesis by (simp add: list_all_iff)
qed


section \<open>Facts about the metadata sanitizer\<close>








section \<open>The metadata sanitizer: the claims\<close>



end
